theory Spec2Isabelle
  imports Main "HOL-Library.AList"
begin

section \<open>The browser platform\<close>

text \<open>
  The client is written against four collaborators of the browser: JavaScript values
  (request bodies and parsed JSON), \<^verbatim>\<open>Headers\<close>, \<^verbatim>\<open>localStorage\<close> and
  the \<^verbatim>\<open>fetch\<close> primitive. This section fixes their model; the client's own code
  starts with the section on construction.
\<close>

subsection \<open>Values\<close>

text \<open>
  A \<^verbatim>\<open>File\<close> is a name and a payload. A value is JSON data, a \<^verbatim>\<open>File\<close> or a
  \<^verbatim>\<open>FileList\<close>; an object lists its own enumerable properties in enumeration
  order. \<^verbatim>\<open>undefined\<close> is \<open>None\<close> of an option type wherever a value may be
  absent. Numbers are the integers, and the text of a number is its decimal numeral:
  what JavaScript prints for an integer it represents exactly, of magnitude below
  \<open>10\<^sup>2\<^sup>1\<close>. Fractions, larger numbers, \<^verbatim>\<open>NaN\<close> and the infinities are left out.
\<close>

datatype js_file = File (file_name: string) (file_data: string)

datatype jsval =
    JNull
  | JBool bool
  | JNum int
  | JStr string
  | JArr "jsval list"
  | JObj "(string \<times> jsval) list"
  | JFile js_file
  | JFileList "js_file list"

definition digit_char :: "nat \<Rightarrow> char" where
  "digit_char n = ''0123456789'' ! n"

function digits :: "nat \<Rightarrow> string" where
  "digits n = (if n < 10 then [digit_char n] else digits (n div 10) @ [digit_char (n mod 10)])"
  by pat_completeness auto
termination
  by (relation "measure id") auto

declare digits.simps [simp del]

definition int_string :: "int \<Rightarrow> string" where
  "int_string i = (if i < 0 then ''-'' @ digits (nat (- i)) else digits (nat i))"

fun intercalate :: "string \<Rightarrow> string list \<Rightarrow> string" where
  "intercalate sep [] = []"
| "intercalate sep [x] = x"
| "intercalate sep (x # y # ys) = x @ sep @ intercalate sep (y # ys)"

definition hex_char :: "nat \<Rightarrow> char" where
  "hex_char n = ''0123456789abcdef'' ! n"

text \<open>The escapes of \<^verbatim>\<open>JSON.stringify\<close>: the quote is 0x22, the backslash 0x5C.\<close>

definition escape_char :: "char \<Rightarrow> string" where
  "escape_char c =
     (if c = CHR 0x22 then [CHR 0x5C, CHR 0x22]
      else if c = CHR 0x5C then [CHR 0x5C, CHR 0x5C]
      else if c = CHR 0x08 then [CHR 0x5C, CHR ''b'']
      else if c = CHR 0x0C then [CHR 0x5C, CHR ''f'']
      else if c = CHR 0x0A then [CHR 0x5C, CHR ''n'']
      else if c = CHR 0x0D then [CHR 0x5C, CHR ''r'']
      else if c = CHR 0x09 then [CHR 0x5C, CHR ''t'']
      else if (of_char c :: nat) < 32
        then [CHR 0x5C, CHR ''u'', CHR ''0'', CHR ''0'',
              hex_char (of_char c div 16), hex_char (of_char c mod 16)]
      else [c])"

definition quote :: "string \<Rightarrow> string" where
  "quote s = [CHR 0x22] @ concat (map escape_char s) @ [CHR 0x22]"

text \<open>
  \<^verbatim>\<open>JSON.stringify\<close> on the modelled values. A \<^verbatim>\<open>File\<close> has no own enumerable
  property and serializes as an empty object; a \<^verbatim>\<open>FileList\<close> as an object of its
  indices.
\<close>

fun JSON_stringify :: "jsval \<Rightarrow> string" where
  "JSON_stringify JNull = ''null''"
| "JSON_stringify (JBool b) = (if b then ''true'' else ''false'')"
| "JSON_stringify (JNum i) = int_string i"
| "JSON_stringify (JStr s) = quote s"
| "JSON_stringify (JArr xs) = ''['' @ intercalate '','' (map JSON_stringify xs) @ '']''"
| "JSON_stringify (JObj kvs) =
     ''{'' @ intercalate '','' (map (\<lambda>(k, v). quote k @ '':'' @ JSON_stringify v) kvs) @ ''}''"
| "JSON_stringify (JFile f) = ''{}''"
| "JSON_stringify (JFileList fs) =
     ''{'' @ intercalate '','' (map (\<lambda>i. quote (digits i) @ '':{}'') [0..<length fs]) @ ''}''"

text \<open>String conversion, as a template literal and \<^verbatim>\<open>FormData.append\<close> apply it.\<close>

fun to_string :: "jsval \<Rightarrow> string" where
  "to_string JNull = ''null''"
| "to_string (JBool b) = (if b then ''true'' else ''false'')"
| "to_string (JNum i) = int_string i"
| "to_string (JStr s) = s"
| "to_string (JArr xs) = intercalate '','' (map (\<lambda>x. if x = JNull then [] else to_string x) xs)"
| "to_string (JObj kvs) = ''[object Object]''"
| "to_string (JFile f) = ''[object File]''"
| "to_string (JFileList fs) = ''[object FileList]''"

definition template :: "jsval option \<Rightarrow> string" where
  "template v = (case v of None \<Rightarrow> ''undefined'' | Some x \<Rightarrow> to_string x)"

fun truthy :: "jsval option \<Rightarrow> bool" where
  "truthy None = False"
| "truthy (Some JNull) = False"
| "truthy (Some (JBool b)) = b"
| "truthy (Some (JNum i)) = (i \<noteq> 0)"
| "truthy (Some (JStr s)) = (s \<noteq> [])"
| "truthy (Some (JArr xs)) = True"
| "truthy (Some (JObj kvs)) = True"
| "truthy (Some (JFile f)) = True"
| "truthy (Some (JFileList fs)) = True"

text \<open>
  Reading a property that is no built-in member (\<^verbatim>\<open>accessToken\<close>, \<^verbatim>\<open>message\<close>,
  \<^verbatim>\<open>errors\<close>, \<^verbatim>\<open>fields\<close>): an object looks it up, every other non-null value
  answers \<^verbatim>\<open>undefined\<close>. Reading from \<^verbatim>\<open>null\<close> throws and is handled where it
  can happen.
\<close>

fun get_prop :: "jsval \<Rightarrow> string \<Rightarrow> jsval option" where
  "get_prop (JObj kvs) k = map_of kvs k"
| "get_prop JNull k = None"
| "get_prop (JBool b) k = None"
| "get_prop (JNum i) k = None"
| "get_prop (JStr s) k = None"
| "get_prop (JArr xs) k = None"
| "get_prop (JFile f) k = None"
| "get_prop (JFileList fs) k = None"

text \<open>
  The own enumerable properties of a value (\<^verbatim>\<open>Object.values\<close> reads their values),
  and the properties a \<^verbatim>\<open>for ... in\<close> loop visits: for a \<^verbatim>\<open>FileList\<close> also the
  inherited \<^verbatim>\<open>length\<close> (the inherited method \<^verbatim>\<open>item\<close> is visited too, but a
  function-valued property is dropped by \<^verbatim>\<open>JSON.stringify\<close>, so it is left out).
\<close>

fun own_entries :: "jsval \<Rightarrow> (string \<times> jsval) list" where
  "own_entries (JObj kvs) = kvs"
| "own_entries (JArr xs) = zip (map digits [0..<length xs]) xs"
| "own_entries (JStr s) = zip (map digits [0..<length s]) (map (\<lambda>c. JStr [c]) s)"
| "own_entries (JFileList fs) = zip (map digits [0..<length fs]) (map JFile fs)"
| "own_entries JNull = []"
| "own_entries (JBool b) = []"
| "own_entries (JNum i) = []"
| "own_entries (JFile f) = []"

fun for_in_entries :: "jsval \<Rightarrow> (string \<times> jsval) list" where
  "for_in_entries (JFileList fs) =
     own_entries (JFileList fs) @ [(''length'', JNum (int (length fs)))]"
| "for_in_entries v = own_entries v"

fun is_File :: "jsval \<Rightarrow> bool" where
  "is_File (JFile f) = True"
| "is_File _ = False"

fun is_FileList :: "jsval \<Rightarrow> bool" where
  "is_FileList (JFileList fs) = True"
| "is_FileList _ = False"

subsection \<open>Multipart forms and request bodies\<close>

text \<open>
  A \<^verbatim>\<open>FormData\<close> is its list of entries; \<^verbatim>\<open>append\<close> keeps a \<^verbatim>\<open>File\<close> and
  converts any other value to a string. A request body is a pre-built form or a value.
\<close>

datatype fd_value = FdString string | FdFile js_file

type_synonym formdata = "(string \<times> fd_value) list"

fun fd_value_of :: "jsval \<Rightarrow> fd_value" where
  "fd_value_of (JFile f) = FdFile f"
| "fd_value_of v = FdString (to_string v)"

definition fd_append :: "string \<Rightarrow> jsval \<Rightarrow> formdata \<Rightarrow> formdata" where
  "fd_append key v fd = fd @ [(key, fd_value_of v)]"

datatype body = FormData formdata | Value jsval

definition is_FormData :: "body option \<Rightarrow> bool" where
  "is_FormData b = (case b of Some (FormData fd) \<Rightarrow> True | Some (Value v) \<Rightarrow> False | None \<Rightarrow> False)"

definition body_truthy :: "body option \<Rightarrow> bool" where
  "body_truthy b = (case b of Some (FormData fd) \<Rightarrow> True | Some (Value v) \<Rightarrow> truthy (Some v) | None \<Rightarrow> False)"

text \<open>
  \<^verbatim>\<open>Object.values(body)\<close>: a type error (\<open>None\<close>) on \<^verbatim>\<open>undefined\<close> and
  \<^verbatim>\<open>null\<close>; a \<^verbatim>\<open>FormData\<close> has no own enumerable property.
\<close>

definition object_values :: "body option \<Rightarrow> jsval list option" where
  "object_values b =
     (case b of
        None \<Rightarrow> None
      | Some (Value JNull) \<Rightarrow> None
      | Some (Value v) \<Rightarrow> Some (map snd (own_entries v))
      | Some (FormData fd) \<Rightarrow> Some [])"

definition for_in :: "body option \<Rightarrow> (string \<times> jsval) list" where
  "for_in b = (case b of Some (Value v) \<Rightarrow> for_in_entries v | Some (FormData fd) \<Rightarrow> [] | None \<Rightarrow> [])"

subsection \<open>Headers and local storage\<close>

text \<open>
  A \<^verbatim>\<open>Headers\<close> object maps lower-cased names to values (names are case-insensitive).
  A value is normalized before it is stored: leading and trailing tabs, line feeds,
  carriage returns and spaces are removed; a normalized value that still holds a NUL, a
  line feed or a carriage return is no header value, and \<^verbatim>\<open>set\<close> throws a type error
  for it. Strings are sequences of bytes, so every character is one a header value may
  hold otherwise. \<^verbatim>\<open>localStorage\<close> maps keys to strings and accepts every write.
\<close>

type_synonym headers = "string \<rightharpoonup> string"

type_synonym storage = "string \<rightharpoonup> string"

definition lower_char :: "char \<Rightarrow> char" where
  "lower_char c =
     (case map_of (zip ''ABCDEFGHIJKLMNOPQRSTUVWXYZ'' ''abcdefghijklmnopqrstuvwxyz'') c of
        Some d \<Rightarrow> d
      | None \<Rightarrow> c)"

definition lower :: "string \<Rightarrow> string" where
  "lower s = map lower_char s"

definition http_whitespace :: "char \<Rightarrow> bool" where
  "http_whitespace c = (c = CHR 0x09 \<or> c = CHR 0x0A \<or> c = CHR 0x0D \<or> c = CHR 0x20)"

definition normalize_value :: "string \<Rightarrow> string" where
  "normalize_value v = rev (dropWhile http_whitespace (rev (dropWhile http_whitespace v)))"

definition valid_value :: "string \<Rightarrow> bool" where
  "valid_value v = (\<not> list_ex (\<lambda>c. c = CHR 0x00 \<or> c = CHR 0x0A \<or> c = CHR 0x0D) v)"

text \<open>
  The headers given to a constructor are pairs that \<^verbatim>\<open>new Headers\<close> accepts (it
  throws on any other, and no client is constructed); a repeated name collects its values.
\<close>

definition Headers_append :: "string \<times> string \<Rightarrow> headers \<Rightarrow> headers" where
  "Headers_append nv h =
     h(lower (fst nv) \<mapsto>
         (case h (lower (fst nv)) of
            None \<Rightarrow> normalize_value (snd nv)
          | Some old \<Rightarrow> old @ '', '' @ normalize_value (snd nv)))"

definition new_Headers :: "(string \<times> string) list option \<Rightarrow> headers" where
  "new_Headers init = (case init of None \<Rightarrow> Map.empty | Some nvs \<Rightarrow> fold Headers_append nvs Map.empty)"

subsection \<open>Requests and the transport\<close>

text \<open>
  A \<^verbatim>\<open>RequestInit\<close> object maps option names to values. The client stores its
  \<^verbatim>\<open>Headers\<close> object in it by reference (\<open>Live_headers\<close>), so later changes of the
  header collection are seen by every later request. A dispatched request records the
  URL, the init object and the contents of the client's header collection at that moment.
  The transport answers a request, given the requests dispatched before it, with a status
  and the result of parsing the response body as JSON (\<open>None\<close>: the body is no JSON and
  \<^verbatim>\<open>json()\<close> rejects), or rejects (\<open>None\<close>).
\<close>

datatype init_val = Live_headers | Given_headers headers | Js jsval | Form formdata

type_synonym request_init = "string \<rightharpoonup> init_val"

record request =
  req_url :: string
  req_init :: request_init
  req_headers :: headers

datatype response = Response (status: nat) (json: "jsval option")

type_synonym transport = "request list \<Rightarrow> request \<Rightarrow> response option"

text \<open>
  A token source is a path or a callable; a call of the callable resolves with a value
  or rejects, and does not touch the client.
\<close>

datatype source_result = Rejects | Resolves "jsval option"

datatype token_source = Path string | Callable "request list \<Rightarrow> source_result"

fun truthy_source :: "token_source option \<Rightarrow> bool" where
  "truthy_source None = False"
| "truthy_source (Some (Path p)) = (p \<noteq> [])"
| "truthy_source (Some (Callable f)) = True"

text \<open>What a rejected call carries: an exception of the platform or a thrown object.\<close>

datatype thrown =
    TypeError
  | SyntaxError
  | NetworkFailure
  | Thrown "(string \<times> jsval option) list"

datatype http_method = GET | POST | PATCH | DELETE

fun method_name :: "http_method \<Rightarrow> string" where
  "method_name GET = ''GET''"
| "method_name POST = ''POST''"
| "method_name PATCH = ''PATCH''"
| "method_name DELETE = ''DELETE''"

section \<open>The client\<close>

text \<open>
  The fields of the class, and the world a call runs in: the client, the browser's
  \<^verbatim>\<open>localStorage\<close> and the requests dispatched so far. \<open>Fwr\<close> has no
  \<open>convertToFormData\<close> field; its constructor leaves it \<open>False\<close> and its methods
  never read it.
\<close>

record client =
  baseUrl :: string
  tokenSource :: "token_source option"
  headers :: headers
  options :: request_init
  convertToFormData :: bool

record world = client +
  localStorage :: storage
  sent :: "request list"

definition page :: "client \<Rightarrow> storage \<Rightarrow> world" where
  "page c ls =
     \<lparr>baseUrl = baseUrl c, tokenSource = tokenSource c, headers = headers c,
      options = options c, convertToFormData = convertToFormData c,
      localStorage = ls, sent = []\<rparr>"

text \<open>
  \<^verbatim>\<open>this.headers.set(name, value)\<close>: \<open>None\<close> is the type error of a value that is
  no header value, and then the header collection is as it was.
\<close>

definition header_put :: "string \<Rightarrow> string \<Rightarrow> world \<Rightarrow> world" where
  "header_put name v w = w\<lparr>headers := (headers w)(name \<mapsto> v)\<rparr>"

definition headers_set :: "string \<Rightarrow> string \<Rightarrow> world \<Rightarrow> world option" where
  "headers_set name v w =
     (if valid_value (normalize_value v) then Some (header_put (lower name) (normalize_value v) w)
      else None)"

definition headers_delete :: "string \<Rightarrow> world \<Rightarrow> world" where
  "headers_delete name w = w\<lparr>headers := (headers w)(lower name := None)\<rparr>"

definition setItem :: "string \<Rightarrow> string \<Rightarrow> world \<Rightarrow> world" where
  "setItem k v w = w\<lparr>localStorage := (localStorage w)(k \<mapsto> v)\<rparr>"

definition removeItem :: "string \<Rightarrow> world \<Rightarrow> world" where
  "removeItem k w = w\<lparr>localStorage := (localStorage w)(k := None)\<rparr>"

subsection \<open>Construction\<close>

definition defaultOptions :: request_init where
  "defaultOptions =
     [''credentials'' \<mapsto> Js (JStr ''include''),
      ''cache'' \<mapsto> Js (JStr ''no-cache''),
      ''mode'' \<mapsto> Js (JStr ''cors'')]"

text \<open>The options bag of the constructors; an absent key is \<open>None\<close>.\<close>

record ctor_options =
  opt_headers :: "(string \<times> string) list option"
  opt_options :: "request_init option"
  opt_convertToFormData :: "bool option"

text \<open>
  \<^verbatim>\<open>a ?? b\<close> is \<open>b\<close> when \<open>a\<close> is \<^verbatim>\<open>null\<close> or \<^verbatim>\<open>undefined\<close> (\<open>None\<close>), and
  \<open>a\<close> otherwise; spreading \<^verbatim>\<open>undefined\<close> adds nothing.
\<close>

definition coalesce :: "'a option \<Rightarrow> 'a \<Rightarrow> 'a" where
  "coalesce a b = (case a of None \<Rightarrow> b | Some x \<Rightarrow> x)"

definition spread :: "request_init option \<Rightarrow> request_init" where
  "spread r = (case r of None \<Rightarrow> Map.empty | Some m \<Rightarrow> m)"

text \<open>
  \<open>Fwr\<close> (fwr.ts): the left operand of \<^verbatim>\<open>??\<close> is an object literal, which is a
  value (\<open>Some\<close>) whatever the caller passed.
\<close>

definition Fwr_new :: "string \<Rightarrow> token_source option \<Rightarrow> ctor_options option \<Rightarrow> client" where
  "Fwr_new baseUrl' tokenSource' options' =
     \<lparr>baseUrl = baseUrl',
      tokenSource = tokenSource',
      headers = new_Headers (Option.bind options' opt_headers),
      options = coalesce (Some ([''headers'' \<mapsto> Live_headers] ++ spread (Option.bind options' opt_options)))
                  ([''headers'' \<mapsto> Live_headers] ++ defaultOptions),
      convertToFormData = False\<rparr>"

text \<open>The extended TypeScript variant: the same, and the conversion flag.\<close>

definition FetchApiTs_new :: "string \<Rightarrow> token_source option \<Rightarrow> ctor_options option \<Rightarrow> client" where
  "FetchApiTs_new baseUrl' tokenSource' options' =
     \<lparr>baseUrl = baseUrl',
      tokenSource = tokenSource',
      headers = new_Headers (Option.bind options' opt_headers),
      options = coalesce (Some ([''headers'' \<mapsto> Live_headers] ++ spread (Option.bind options' opt_options)))
                  ([''headers'' \<mapsto> Live_headers] ++ defaultOptions),
      convertToFormData =
        (case options' of
           None \<Rightarrow> False
         | Some bag \<Rightarrow> (case opt_convertToFormData bag of None \<Rightarrow> False | Some b \<Rightarrow> b))\<rparr>"

text \<open>
  \<open>FetchApi\<close> (index.js): the first argument is a base URL, a configuration object or
  absent; the stored options are chosen by a conditional on the caller's options.
\<close>

record config =
  cfg_baseUrl :: "string option"
  cfg_headers :: "(string \<times> string) list option"
  cfg_options :: "request_init option"
  cfg_tokenSource :: "token_source option"
  cfg_convertToFormData :: "bool option"

datatype ctor_arg = Base string | Config config | Missing

definition FetchApi_new :: "ctor_arg \<Rightarrow> token_source option \<Rightarrow> ctor_options option \<Rightarrow> client" where
  "FetchApi_new baseUrl' tokenSource' options' =
     (case baseUrl' of
        Base u \<Rightarrow>
          \<lparr>baseUrl = u,
           tokenSource = tokenSource',
           headers = new_Headers (Option.bind options' opt_headers),
           options =
             (case Option.bind options' opt_options of
                Some given \<Rightarrow> [''headers'' \<mapsto> Live_headers] ++ given
              | None \<Rightarrow> [''headers'' \<mapsto> Live_headers] ++ defaultOptions),
           convertToFormData =
             (case options' of
                None \<Rightarrow> False
              | Some bag \<Rightarrow> (case opt_convertToFormData bag of None \<Rightarrow> False | Some b \<Rightarrow> b))\<rparr>
      | Config cfg \<Rightarrow>
          \<lparr>baseUrl = coalesce (cfg_baseUrl cfg) ''/'',
           tokenSource = cfg_tokenSource cfg,
           headers = new_Headers (cfg_headers cfg),
           options =
             (case cfg_options cfg of
                Some given \<Rightarrow> [''headers'' \<mapsto> Live_headers] ++ given
              | None \<Rightarrow> [''headers'' \<mapsto> Live_headers] ++ defaultOptions),
           convertToFormData = coalesce (cfg_convertToFormData cfg) False\<rparr>
      | Missing \<Rightarrow>
          \<lparr>baseUrl = ''/'',
           tokenSource = None,
           headers = new_Headers None,
           options = [''headers'' \<mapsto> Live_headers] ++ defaultOptions,
           convertToFormData = False\<rparr>)"

subsection \<open>The authorization header\<close>

text \<open>
  \<^verbatim>\<open>setAuthHeader\<close> and \<^verbatim>\<open>deleteAuthHeader\<close> are the same in every variant.
  \<^verbatim>\<open>setAuthHeader\<close> returns normally (\<open>Inr ()\<close>) or throws the type error of one
  of its two header writes; a fingerprint already written stays written.
\<close>

definition setAuthHeader :: "string option \<Rightarrow> world \<Rightarrow> (thrown + unit) \<times> world" where
  "setAuthHeader fingerprint w =
     (case (case fingerprint of
              None \<Rightarrow> Some w
            | Some f \<Rightarrow> if f \<noteq> [] then headers_set ''Fingerprint'' f w else Some w) of
        None \<Rightarrow> (Inl TypeError, w)
      | Some w1 \<Rightarrow>
          (case localStorage w1 ''accessToken'' of
             None \<Rightarrow> (Inr (), w1)
           | Some accessToken \<Rightarrow>
               if accessToken \<noteq> [] then
                 (case headers_set ''Authorization'' (''Bearer '' @ accessToken) w1 of
                    None \<Rightarrow> (Inl TypeError, w1)
                  | Some w2 \<Rightarrow> (Inr (), w2))
               else (Inr (), w1)))"

definition deleteAuthHeader :: "world \<Rightarrow> world" where
  "deleteAuthHeader w = removeItem ''accessToken'' (headers_delete ''Authorization'' w)"

subsection \<open>Pieces shared by the request paths\<close>

text \<open>
  The body put on the wire for POST and PATCH:
  \<^verbatim>\<open>body instanceof FormData ? body : JSON.stringify(body ?? {})\<close>.
\<close>

definition wire_body :: "body option \<Rightarrow> init_val" where
  "wire_body b =
     (case b of
        Some (FormData fd) \<Rightarrow> Form fd
      | Some (Value v) \<Rightarrow> Js (JStr (JSON_stringify (if v = JNull then JObj [] else v)))
      | None \<Rightarrow> Js (JStr (JSON_stringify (JObj []))))"

text \<open>The call of the platform's \<^verbatim>\<open>fetch\<close>.\<close>

definition dispatch ::
  "transport \<Rightarrow> world \<Rightarrow> string \<Rightarrow> request_init \<Rightarrow> response option \<times> world" where
  "dispatch net w u init =
     (let r = \<lparr>req_url = u, req_init = init, req_headers = headers w\<rparr>
      in (net (sent w) r, w\<lparr>sent := sent w @ [r]\<rparr>))"

definition response_json :: "response \<Rightarrow> thrown + jsval" where
  "response_json res = (case json res of None \<Rightarrow> Inl SyntaxError | Some v \<Rightarrow> Inr v)"

text \<open>
  The error handler: it parses the body and throws an object built from it; reading a
  property of \<^verbatim>\<open>null\<close> is a type error. \<open>FetchApi\<close> (index.js) copies
  \<^verbatim>\<open>fields\<close> where the other two copy \<^verbatim>\<open>errors\<close>.
\<close>

definition Fwr_error :: "response \<Rightarrow> thrown + jsval" where
  "Fwr_error res =
     (case json res of
        None \<Rightarrow> Inl SyntaxError
      | Some err \<Rightarrow>
          if err = JNull then Inl TypeError
          else Inl (Thrown [(''status'', Some (JNum (int (status res)))),
                            (''message'', get_prop err ''message''),
                            (''errors'', get_prop err ''errors'')]))"

definition FetchApi_error :: "response \<Rightarrow> thrown + jsval" where
  "FetchApi_error res =
     (case json res of
        None \<Rightarrow> Inl SyntaxError
      | Some err \<Rightarrow>
          if err = JNull then Inl TypeError
          else Inl (Thrown [(''status'', Some (JNum (int (status res)))),
                            (''message'', get_prop err ''message''),
                            (''fields'', get_prop err ''fields'')]))"

text \<open>
  The step of the refresh sequence after the token is obtained: a truthy token is written
  to the header collection and then to the store. The header write comes first and is
  outside the \<^verbatim>\<open>try\<close> block: its type error (\<open>None\<close>) leaves both as they were
  and ends the refresh sequence.
\<close>

definition store_token :: "jsval option \<Rightarrow> world \<Rightarrow> world option" where
  "store_token token w =
     (case token of
        None \<Rightarrow> Some w
      | Some t \<Rightarrow>
          if truthy (Some t) then
            (case headers_set ''Authorization''
                    (''Bearer '' @ template (get_prop t ''accessToken'')) w of
               None \<Rightarrow> None
             | Some w1 \<Rightarrow> Some (setItem ''accessToken'' (template (get_prop t ''accessToken'')) w1))
          else Some w)"

definition failed_to_get_token :: thrown where
  "failed_to_get_token = Thrown [(''message'', Some (JStr ''Failed to get token''))]"

definition failed_to_refresh_token :: thrown where
  "failed_to_refresh_token = Thrown [(''message'', Some (JStr ''Failed to refresh token''))]"

record fetch_args =
  url :: string
  meth :: "http_method option"
  body :: "body option"
  refresh :: "bool option"
  rest :: request_init

text \<open>The two calls of \<^verbatim>\<open>fetch\<close> that the refresh sequence makes.\<close>

definition token_args :: "string \<Rightarrow> fetch_args" where
  "token_args p =
     \<lparr>url = p, meth = Some GET, body = None, refresh = Some False, rest = Map.empty\<rparr>"

definition retry_args :: "string \<Rightarrow> http_method \<Rightarrow> body option \<Rightarrow> fetch_args" where
  "retry_args u m b =
     \<lparr>url = u, meth = Some m, body = b, refresh = Some False, rest = Map.empty\<rparr>"

subsection \<open>Form-data conversion\<close>

text \<open>
  \<^verbatim>\<open>toFormData\<close>: the loop over the keys of the data with its two accumulators, the
  form of the files and the JSON object of the rest (\<^verbatim>\<open>{...jsonData, [key]: v}\<close>
  replaces the key in place or adds it at the end), then the assembly of the result.
\<close>

fun toFormData_loop ::
  "(string \<times> jsval) list \<Rightarrow> formdata \<Rightarrow> (string \<times> jsval) list \<Rightarrow> formdata \<times> (string \<times> jsval) list" where
  "toFormData_loop [] formDataWithFiles jsonData = (formDataWithFiles, jsonData)"
| "toFormData_loop ((key, JFile f) # data) formDataWithFiles jsonData =
     toFormData_loop data (fd_append key (JFile f) formDataWithFiles) jsonData"
| "toFormData_loop ((key, JFileList fileList) # data) formDataWithFiles jsonData =
     toFormData_loop data (fold (fd_append key) (map JFile fileList) formDataWithFiles) jsonData"
| "toFormData_loop ((key, JArr arr) # data) formDataWithFiles jsonData =
     (if list_ex is_File arr
      then toFormData_loop data (fold (fd_append key) arr formDataWithFiles) jsonData
      else toFormData_loop data formDataWithFiles (AList.update key (JArr arr) jsonData))"
| "toFormData_loop ((key, v) # data) formDataWithFiles jsonData =
     toFormData_loop data formDataWithFiles (AList.update key v jsonData)"

definition toFormData :: "(string \<times> jsval) list \<Rightarrow> formdata" where
  "toFormData data =
     (case toFormData_loop data [] [] of
        (formDataWithFiles, jsonData) \<Rightarrow>
          (''serialized-json'', FdString (JSON_stringify (JObj jsonData))) # formDataWithFiles)"

subsection \<open>Fwr: the request path and the refresh sequence\<close>

text \<open>
  \<open>Fwr.fetch\<close> and \<open>Fwr.refreshToken\<close> call each other. The \<^verbatim>\<open>try\<close> block of
  \<open>refreshToken\<close> is the case distinction on the token source, its \<^verbatim>\<open>catch\<close> the
  branches that fail with \<open>failed_to_get_token\<close>; calling an absent source is a type
  error that the \<^verbatim>\<open>catch\<close> converts as well.
\<close>

function Fwr_fetch :: "transport \<Rightarrow> world \<Rightarrow> fetch_args \<Rightarrow> (thrown + jsval) \<times> world"
  and Fwr_refreshToken ::
    "transport \<Rightarrow> world \<Rightarrow> string \<Rightarrow> http_method \<Rightarrow> body option \<Rightarrow> (thrown + jsval) \<times> world"
where
  "Fwr_fetch net w a =
     (let method' = coalesce (meth a) GET;
          refresh' = coalesce (refresh a) True
      in case (if is_FormData (body a) then Some (headers_delete ''Content-Type'' w)
               else headers_set ''Content-Type'' ''application/json'' w) of
           None \<Rightarrow> (Inl TypeError, w)
         | Some w1 \<Rightarrow>
             (let args = (if method' = PATCH \<or> method' = POST
                          then rest a ++ [''method'' \<mapsto> Js (JStr (method_name method')),
                                          ''body'' \<mapsto> wire_body (body a)]
                          else rest a);
                  (response, w2) = dispatch net w1 (baseUrl w1 @ url a)
                                     ([''method'' \<mapsto> Js (JStr (method_name method'))] ++ options w1 ++ args)
              in case response of
                   None \<Rightarrow> (Inl NetworkFailure, w2)
                 | Some res \<Rightarrow>
                     if status res = 201 \<or> status res = 200 then (response_json res, w2)
                     else if status res = 401 \<and> refresh' \<and> truthy_source (tokenSource w2)
                       then Fwr_refreshToken net w2 (url a) method' (body a)
                     else (Fwr_error res, w2)))"
| "Fwr_refreshToken net w url' method' body' =
     (if truthy_source (tokenSource w) then
        (case tokenSource w of
           Some (Path p) \<Rightarrow>
             (case Fwr_fetch net w (token_args p) of
                (Inl e, w1) \<Rightarrow> (Inl failed_to_get_token, w1)
              | (Inr token, w1) \<Rightarrow>
                  (case store_token (Some token) w1 of
                     None \<Rightarrow> (Inl TypeError, w1)
                   | Some w2 \<Rightarrow> Fwr_fetch net w2 (retry_args url' method' body')))
         | Some (Callable f) \<Rightarrow>
             (case f (sent w) of
                Rejects \<Rightarrow> (Inl failed_to_get_token, w)
              | Resolves token \<Rightarrow>
                  (case store_token token w of
                     None \<Rightarrow> (Inl TypeError, w)
                   | Some w2 \<Rightarrow> Fwr_fetch net w2 (retry_args url' method' body')))
         | None \<Rightarrow> (Inl failed_to_get_token, w))
      else (Inl failed_to_refresh_token, removeItem ''accessToken'' w))"
  by pat_completeness auto
termination
  by (relation "measure (\<lambda>x. case x of
            Inl (net, w, a) \<Rightarrow> (if refresh a = Some False then 0 else 2)
          | Inr (net, w, u, m, b) \<Rightarrow> (1::nat))")
     (auto simp: token_args_def retry_args_def coalesce_def split: option.splits)

declare Fwr_fetch.simps [simp del] Fwr_refreshToken.simps [simp del]

subsection \<open>The extended TypeScript variant\<close>

text \<open>
  With the conversion flag set, \<open>fetch\<close> reads \<^verbatim>\<open>Object.values\<close> of the body first,
  whatever the body is; the type error of an absent body rejects the call. The body
  assigned by the conversion is the one that is sent and handed to the refresh sequence.
  \<open>refreshToken\<close> is that of \<open>Fwr\<close>; a type error of the token request is caught there
  like any other failure.
\<close>

definition FetchApiTs_error :: "response \<Rightarrow> thrown + jsval" where
  "FetchApiTs_error res = Fwr_error res"

function FetchApiTs_fetch :: "transport \<Rightarrow> world \<Rightarrow> fetch_args \<Rightarrow> (thrown + jsval) \<times> world"
  and FetchApiTs_refreshToken ::
    "transport \<Rightarrow> world \<Rightarrow> string \<Rightarrow> http_method \<Rightarrow> body option \<Rightarrow> (thrown + jsval) \<times> world"
where
  "FetchApiTs_fetch net w a =
     (let method' = coalesce (meth a) GET;
          refresh' = coalesce (refresh a) True
      in case (if convertToFormData w then
                 (case object_values (body a) of
                    None \<Rightarrow> None
                  | Some vals \<Rightarrow>
                      if list_ex is_File vals
                      then Some (Some (FormData (toFormData (for_in (body a)))),
                                 headers_delete ''Content-Type'' w)
                      else map_option (Pair (body a))
                             (headers_set ''Content-Type'' ''application/json'' w))
               else if is_FormData (body a)
                 then Some (body a, headers_delete ''Content-Type'' w)
               else map_option (Pair (body a))
                      (headers_set ''Content-Type'' ''application/json'' w)) of
           None \<Rightarrow> (Inl TypeError, w)
         | Some (body', w1) \<Rightarrow>
             (let args = (if method' = PATCH \<or> method' = POST
                          then rest a ++ [''method'' \<mapsto> Js (JStr (method_name method')),
                                          ''body'' \<mapsto> wire_body body']
                          else rest a);
                  (response, w2) = dispatch net w1 (baseUrl w1 @ url a)
                                     ([''method'' \<mapsto> Js (JStr (method_name method'))] ++ options w1 ++ args)
              in case response of
                   None \<Rightarrow> (Inl NetworkFailure, w2)
                 | Some res \<Rightarrow>
                     if status res = 201 \<or> status res = 200 then (response_json res, w2)
                     else if status res = 401 \<and> refresh' \<and> truthy_source (tokenSource w2)
                       then FetchApiTs_refreshToken net w2 (url a) method' body'
                     else (FetchApiTs_error res, w2)))"
| "FetchApiTs_refreshToken net w url' method' body' =
     (if truthy_source (tokenSource w) then
        (case tokenSource w of
           Some (Path p) \<Rightarrow>
             (case FetchApiTs_fetch net w (token_args p) of
                (Inl e, w1) \<Rightarrow> (Inl failed_to_get_token, w1)
              | (Inr token, w1) \<Rightarrow>
                  (case store_token (Some token) w1 of
                     None \<Rightarrow> (Inl TypeError, w1)
                   | Some w2 \<Rightarrow> FetchApiTs_fetch net w2 (retry_args url' method' body')))
         | Some (Callable f) \<Rightarrow>
             (case f (sent w) of
                Rejects \<Rightarrow> (Inl failed_to_get_token, w)
              | Resolves token \<Rightarrow>
                  (case store_token token w of
                     None \<Rightarrow> (Inl TypeError, w)
                   | Some w2 \<Rightarrow> FetchApiTs_fetch net w2 (retry_args url' method' body')))
         | None \<Rightarrow> (Inl failed_to_get_token, w))
      else (Inl failed_to_refresh_token, removeItem ''accessToken'' w))"
  by pat_completeness auto
termination
  by (relation "measure (\<lambda>x. case x of
            Inl (net, w, a) \<Rightarrow> (if refresh a = Some False then 0 else 2)
          | Inr (net, w, u, m, b) \<Rightarrow> (1::nat))")
     (auto simp: token_args_def retry_args_def coalesce_def split: option.splits)

declare FetchApiTs_fetch.simps [simp del] FetchApiTs_refreshToken.simps [simp del]

subsection \<open>FetchApi (index.js)\<close>

text \<open>
  \<open>fetch\<close> tests for a pre-built form first and converts only a truthy body;
  every 401 with the refresh flag set goes to \<open>refreshToken\<close>, which takes the failed
  response and surfaces its error when no token can be obtained.
\<close>

function FetchApi_fetch :: "transport \<Rightarrow> world \<Rightarrow> fetch_args \<Rightarrow> (thrown + jsval) \<times> world"
  and FetchApi_refreshToken ::
    "transport \<Rightarrow> world \<Rightarrow> response \<Rightarrow> string \<Rightarrow> http_method \<Rightarrow> body option \<Rightarrow> (thrown + jsval) \<times> world"
where
  "FetchApi_fetch net w a =
     (let method' = coalesce (meth a) GET;
          refresh' = coalesce (refresh a) True
      in case (if is_FormData (body a) then Some (body a, headers_delete ''Content-Type'' w)
               else if body_truthy (body a) \<and> convertToFormData w then
                 (if (case object_values (body a) of
                        None \<Rightarrow> False
                      | Some vals \<Rightarrow> list_ex (\<lambda>el. is_File el \<or> is_FileList el) vals)
                  then Some (Some (FormData (toFormData (for_in (body a)))),
                             headers_delete ''Content-Type'' w)
                  else map_option (Pair (body a))
                         (headers_set ''Content-Type'' ''application/json'' w))
               else map_option (Pair (body a))
                      (headers_set ''Content-Type'' ''application/json'' w)) of
           None \<Rightarrow> (Inl TypeError, w)
         | Some (body', w1) \<Rightarrow>
             (let args = (if method' = PATCH \<or> method' = POST
                          then rest a ++ [''method'' \<mapsto> Js (JStr (method_name method')),
                                          ''body'' \<mapsto> wire_body body']
                          else rest a);
                  (response, w2) = dispatch net w1 (baseUrl w1 @ url a)
                                     ([''method'' \<mapsto> Js (JStr (method_name method'))] ++ options w1 ++ args)
              in case response of
                   None \<Rightarrow> (Inl NetworkFailure, w2)
                 | Some res \<Rightarrow>
                     if status res = 201 \<or> status res = 200 then (response_json res, w2)
                     else if status res = 401 \<and> refresh'
                       then FetchApi_refreshToken net w2 res (url a) method' body'
                     else (FetchApi_error res, w2)))"
| "FetchApi_refreshToken net w response url' method' body' =
     (if truthy_source (tokenSource w) then
        (case tokenSource w of
           Some (Path p) \<Rightarrow>
             (case FetchApi_fetch net w (token_args p) of
                (Inl e, w1) \<Rightarrow> (FetchApi_error response, w1)
              | (Inr token, w1) \<Rightarrow>
                  (case store_token (Some token) w1 of
                     None \<Rightarrow> (Inl TypeError, w1)
                   | Some w2 \<Rightarrow> FetchApi_fetch net w2 (retry_args url' method' body')))
         | Some (Callable f) \<Rightarrow>
             (case f (sent w) of
                Rejects \<Rightarrow> (FetchApi_error response, w)
              | Resolves token \<Rightarrow>
                  (case store_token token w of
                     None \<Rightarrow> (Inl TypeError, w)
                   | Some w2 \<Rightarrow> FetchApi_fetch net w2 (retry_args url' method' body')))
         | None \<Rightarrow> (FetchApi_error response, w))
      else (FetchApi_error response, removeItem ''accessToken'' w))"
  by pat_completeness auto
termination
  by (relation "measure (\<lambda>x. case x of
            Inl (net, w, a) \<Rightarrow> (if refresh a = Some False then 0 else 2)
          | Inr (net, w, r, u, m, b) \<Rightarrow> (1::nat))")
     (auto simp: token_args_def retry_args_def coalesce_def split: option.splits)

declare FetchApi_fetch.simps [simp del] FetchApi_refreshToken.simps [simp del]

subsection \<open>Shorthands\<close>

definition plain_args :: "string \<Rightarrow> http_method option \<Rightarrow> body option \<Rightarrow> fetch_args" where
  "plain_args u m b = \<lparr>url = u, meth = m, body = b, refresh = None, rest = Map.empty\<rparr>"

definition Fwr_get :: "transport \<Rightarrow> world \<Rightarrow> string \<Rightarrow> (thrown + jsval) \<times> world" where
  "Fwr_get net w u = Fwr_fetch net w (plain_args u None None)"

definition Fwr_post :: "transport \<Rightarrow> world \<Rightarrow> string \<Rightarrow> body option \<Rightarrow> (thrown + jsval) \<times> world" where
  "Fwr_post net w u b = Fwr_fetch net w (plain_args u (Some POST) b)"

definition Fwr_patch :: "transport \<Rightarrow> world \<Rightarrow> string \<Rightarrow> body option \<Rightarrow> (thrown + jsval) \<times> world" where
  "Fwr_patch net w u b = Fwr_fetch net w (plain_args u (Some PATCH) b)"

definition Fwr_delete :: "transport \<Rightarrow> world \<Rightarrow> string \<Rightarrow> (thrown + jsval) \<times> world" where
  "Fwr_delete net w u = Fwr_fetch net w (plain_args u (Some DELETE) None)"

definition FetchApiTs_get :: "transport \<Rightarrow> world \<Rightarrow> string \<Rightarrow> (thrown + jsval) \<times> world" where
  "FetchApiTs_get net w u = FetchApiTs_fetch net w (plain_args u None None)"

definition FetchApiTs_delete :: "transport \<Rightarrow> world \<Rightarrow> string \<Rightarrow> (thrown + jsval) \<times> world" where
  "FetchApiTs_delete net w u = FetchApiTs_fetch net w (plain_args u (Some DELETE) None)"

definition FetchApiTs_post :: "transport \<Rightarrow> world \<Rightarrow> string \<Rightarrow> body option \<Rightarrow> (thrown + jsval) \<times> world" where
  "FetchApiTs_post net w u b = FetchApiTs_fetch net w (plain_args u (Some POST) b)"

definition FetchApi_get :: "transport \<Rightarrow> world \<Rightarrow> string \<Rightarrow> (thrown + jsval) \<times> world" where
  "FetchApi_get net w u = FetchApi_fetch net w (plain_args u None None)"

definition FetchApi_post :: "transport \<Rightarrow> world \<Rightarrow> string \<Rightarrow> body option \<Rightarrow> (thrown + jsval) \<times> world" where
  "FetchApi_post net w u b = FetchApi_fetch net w (plain_args u (Some POST) b)"

section \<open>Example clients and transports\<close>

text \<open>
  A client of the extended TypeScript variant with the conversion flag set, a transport
  that rejects every request, one that answers every request with 200 and the body
  \<^verbatim>\<open>null\<close>, and a pre-built form with one file.
\<close>

definition ts_world :: world where
  "ts_world =
     page (FetchApiTs_new ''https://api.example.com'' None
             (Some \<lparr>opt_headers = None, opt_options = None, opt_convertToFormData = Some True\<rparr>))
       Map.empty"

definition silent :: transport where
  "silent log r = None"

definition ok_null :: transport where
  "ok_null log r = Some (Response 200 (Some JNull))"

definition upload_form :: formdata where
  "upload_form = [(''file'', FdFile (File ''a.txt'' ''payload''))]"

section \<open>What a call dispatches\<close>

text \<open>
  Names for the stages of \<open>Fwr.fetch\<close>, used to state its properties: the world after
  the \<^verbatim>\<open>Content-Type\<close> step, the request handed to the transport, the world after
  the dispatch, the \<^verbatim>\<open>try\<close> block of \<open>Fwr.refreshToken\<close> on its own, and the
  arguments of the retry. \<open>Fwr_fetch_unfold\<close> and \<open>Fwr_refreshToken_acquire\<close> below
  relate them to the functions.
\<close>

definition Fwr_prepared :: "world \<Rightarrow> fetch_args \<Rightarrow> world" where
  "Fwr_prepared w a =
     (if is_FormData (body a) then headers_delete ''Content-Type'' w
      else header_put ''content-type'' ''application/json'' w)"

definition Fwr_request :: "world \<Rightarrow> fetch_args \<Rightarrow> request" where
  "Fwr_request w a =
     \<lparr>req_url = baseUrl w @ url a,
      req_init =
        [''method'' \<mapsto> Js (JStr (method_name (coalesce (meth a) GET)))] ++ options w ++
        (if coalesce (meth a) GET = PATCH \<or> coalesce (meth a) GET = POST
         then rest a ++ [''method'' \<mapsto> Js (JStr (method_name (coalesce (meth a) GET))),
                         ''body'' \<mapsto> wire_body (body a)]
         else rest a),
      req_headers = headers (Fwr_prepared w a)\<rparr>"

definition Fwr_dispatched :: "world \<Rightarrow> fetch_args \<Rightarrow> world" where
  "Fwr_dispatched w a = (Fwr_prepared w a)\<lparr>sent := sent w @ [Fwr_request w a]\<rparr>"

definition Fwr_acquire :: "transport \<Rightarrow> world \<Rightarrow> jsval option option \<times> world" where
  "Fwr_acquire net w =
     (case tokenSource w of
        Some (Path p) \<Rightarrow>
          (case Fwr_fetch net w (token_args p) of
             (Inl e, w1) \<Rightarrow> (None, w1)
           | (Inr token, w1) \<Rightarrow> (Some (Some token), w1))
      | Some (Callable f) \<Rightarrow>
          (case f (sent w) of Rejects \<Rightarrow> (None, w) | Resolves token \<Rightarrow> (Some token, w))
      | None \<Rightarrow> (None, w))"

definition Fwr_retry_args :: "fetch_args \<Rightarrow> fetch_args" where
  "Fwr_retry_args a = retry_args (url a) (coalesce (meth a) GET) (body a)"

text \<open>
  An \<open>Fwr\<close> client constructed with a method and a body among its request options;
  an \<open>Fwr\<close> client with the token path \<^verbatim>\<open>/refresh\<close>, two responses, a transport
  that answers the second request with a token and every other request with 401, and one
  whose token endpoint fails.
\<close>

definition stored_body_fwr :: world where
  "stored_body_fwr =
     page (Fwr_new ''https://api.example.com'' None
             (Some \<lparr>opt_headers = None,
                    opt_options = Some [''method'' \<mapsto> Js (JStr ''PUT''),
                                        ''body'' \<mapsto> Js (JStr ''stored'')],
                    opt_convertToFormData = None\<rparr>))
       Map.empty"

definition fwr_world :: world where
  "fwr_world = page (Fwr_new ''https://api.example.com'' (Some (Path ''/refresh'')) None) Map.empty"

definition unauthorized :: response where
  "unauthorized = Response 401 (Some (JObj [(''message'', JStr ''Unauthorized'')]))"

definition token_abc :: response where
  "token_abc = Response 200 (Some (JObj [(''accessToken'', JStr ''abc'')]))"

definition always_401_after_token :: transport where
  "always_401_after_token log r = (if length log = 1 then Some token_abc else Some unauthorized)"

text \<open>A token endpoint whose token holds a line feed.\<close>

definition token_line_feed :: response where
  "token_line_feed =
     Response 200 (Some (JObj [(''accessToken'', JStr [CHR ''a'', CHR 0x0A, CHR ''b''])]))"

definition line_feed_after_401 :: transport where
  "line_feed_after_401 log r = (if length log = 1 then Some token_line_feed else Some unauthorized)"


text \<open>
  The same names for \<open>FetchApi.fetch\<close> (index.js): whether the body is converted, the
  body that is sent and handed on, the world after the \<^verbatim>\<open>Content-Type\<close> step, the
  request, the world after the dispatch, and the \<^verbatim>\<open>try\<close> block of
  \<open>FetchApi.refreshToken\<close>.
\<close>

definition FetchApi_converts :: "world \<Rightarrow> fetch_args \<Rightarrow> bool" where
  "FetchApi_converts w a =
     (\<not> is_FormData (body a) \<and> body_truthy (body a) \<and> convertToFormData w \<and>
      (case object_values (body a) of
         None \<Rightarrow> False
       | Some vals \<Rightarrow> list_ex (\<lambda>el. is_File el \<or> is_FileList el) vals))"

definition FetchApi_body :: "world \<Rightarrow> fetch_args \<Rightarrow> body option" where
  "FetchApi_body w a =
     (if FetchApi_converts w a then Some (FormData (toFormData (for_in (body a)))) else body a)"

definition FetchApi_prepared :: "world \<Rightarrow> fetch_args \<Rightarrow> world" where
  "FetchApi_prepared w a =
     (if is_FormData (body a) \<or> FetchApi_converts w a then headers_delete ''Content-Type'' w
      else header_put ''content-type'' ''application/json'' w)"

definition FetchApi_request :: "world \<Rightarrow> fetch_args \<Rightarrow> request" where
  "FetchApi_request w a =
     \<lparr>req_url = baseUrl w @ url a,
      req_init =
        [''method'' \<mapsto> Js (JStr (method_name (coalesce (meth a) GET)))] ++ options w ++
        (if coalesce (meth a) GET = PATCH \<or> coalesce (meth a) GET = POST
         then rest a ++ [''method'' \<mapsto> Js (JStr (method_name (coalesce (meth a) GET))),
                         ''body'' \<mapsto> wire_body (FetchApi_body w a)]
         else rest a),
      req_headers = headers (FetchApi_prepared w a)\<rparr>"

definition FetchApi_dispatched :: "world \<Rightarrow> fetch_args \<Rightarrow> world" where
  "FetchApi_dispatched w a = (FetchApi_prepared w a)\<lparr>sent := sent w @ [FetchApi_request w a]\<rparr>"

definition FetchApi_acquire :: "transport \<Rightarrow> world \<Rightarrow> jsval option option \<times> world" where
  "FetchApi_acquire net w =
     (case tokenSource w of
        Some (Path p) \<Rightarrow>
          (case FetchApi_fetch net w (token_args p) of
             (Inl e, w1) \<Rightarrow> (None, w1)
           | (Inr token, w1) \<Rightarrow> (Some (Some token), w1))
      | Some (Callable f) \<Rightarrow>
          (case f (sent w) of Rejects \<Rightarrow> (None, w) | Resolves token \<Rightarrow> (Some token, w))
      | None \<Rightarrow> (None, w))"

text \<open>
  A \<open>FetchApi\<close> client with the token path \<^verbatim>\<open>/refresh\<close> over a given store, the
  body \<^verbatim>\<open>{items: []}\<close>, and the transport of the refresh scenario: 401 to the first
  request, the token to a GET of the refresh URL as second request, the items to a GET
  of the items URL as third request, a server error to any other second or third
  request. Then clients without a token source and a transport that always answers 401.
\<close>

definition fetchapi_world :: "storage \<Rightarrow> world" where
  "fetchapi_world ls =
     page (FetchApi_new (Base ''https://api.example.com'') (Some (Path ''/refresh'')) None) ls"

definition items :: jsval where
  "items = JObj [(''items'', JArr [])]"

definition server_error :: response where
  "server_error = Response 500 (Some (JObj [(''message'', JStr ''Internal Server Error'')]))"

definition scenario :: transport where
  "scenario log r =
     (if length log = 0 then Some unauthorized
      else if length log = 1 then
        (if req_url r = ''https://api.example.com/refresh''
            \<and> req_init r ''method'' = Some (Js (JStr ''GET''))
         then Some token_abc else Some server_error)
      else if length log = 2 then
        (if req_url r = ''https://api.example.com/items''
            \<and> req_init r ''method'' = Some (Js (JStr ''GET''))
         then Some (Response 200 (Some items)) else Some server_error)
      else None)"

definition anonymous_fetchapi :: "storage \<Rightarrow> world" where
  "anonymous_fetchapi ls = page (FetchApi_new (Base ''https://api.example.com'') None None) ls"

definition anonymous_fwr :: "storage \<Rightarrow> world" where
  "anonymous_fwr ls = page (Fwr_new ''https://api.example.com'' None None) ls"

definition always_401 :: transport where
  "always_401 log r = Some unauthorized"

text \<open>
  And for \<open>fetch\<close> of the extended TypeScript variant, which can also throw before it
  dispatches.
\<close>

definition FetchApiTs_throws :: "world \<Rightarrow> fetch_args \<Rightarrow> bool" where
  "FetchApiTs_throws w a = (convertToFormData w \<and> object_values (body a) = None)"

definition FetchApiTs_converts :: "world \<Rightarrow> fetch_args \<Rightarrow> bool" where
  "FetchApiTs_converts w a =
     (convertToFormData w \<and>
      (case object_values (body a) of None \<Rightarrow> False | Some vals \<Rightarrow> list_ex is_File vals))"

definition FetchApiTs_body :: "world \<Rightarrow> fetch_args \<Rightarrow> body option" where
  "FetchApiTs_body w a =
     (if FetchApiTs_converts w a then Some (FormData (toFormData (for_in (body a)))) else body a)"

definition FetchApiTs_prepared :: "world \<Rightarrow> fetch_args \<Rightarrow> world" where
  "FetchApiTs_prepared w a =
     (if FetchApiTs_converts w a \<or> (\<not> convertToFormData w \<and> is_FormData (body a))
      then headers_delete ''Content-Type'' w
      else header_put ''content-type'' ''application/json'' w)"

definition FetchApiTs_request :: "world \<Rightarrow> fetch_args \<Rightarrow> request" where
  "FetchApiTs_request w a =
     \<lparr>req_url = baseUrl w @ url a,
      req_init =
        [''method'' \<mapsto> Js (JStr (method_name (coalesce (meth a) GET)))] ++ options w ++
        (if coalesce (meth a) GET = PATCH \<or> coalesce (meth a) GET = POST
         then rest a ++ [''method'' \<mapsto> Js (JStr (method_name (coalesce (meth a) GET))),
                         ''body'' \<mapsto> wire_body (FetchApiTs_body w a)]
         else rest a),
      req_headers = headers (FetchApiTs_prepared w a)\<rparr>"

definition FetchApiTs_dispatched :: "world \<Rightarrow> fetch_args \<Rightarrow> world" where
  "FetchApiTs_dispatched w a =
     (FetchApiTs_prepared w a)\<lparr>sent := sent w @ [FetchApiTs_request w a]\<rparr>"

definition FetchApiTs_acquire :: "transport \<Rightarrow> world \<Rightarrow> jsval option option \<times> world" where
  "FetchApiTs_acquire net w =
     (case tokenSource w of
        Some (Path p) \<Rightarrow>
          (case FetchApiTs_fetch net w (token_args p) of
             (Inl e, w1) \<Rightarrow> (None, w1)
           | (Inr token, w1) \<Rightarrow> (Some (Some token), w1))
      | Some (Callable f) \<Rightarrow>
          (case f (sent w) of Rejects \<Rightarrow> (None, w) | Resolves token \<Rightarrow> (Some token, w))
      | None \<Rightarrow> (None, w))"

text \<open>A \<open>FetchApi\<close> client (index.js) with the conversion flag set, and a file.\<close>

definition converting_fetchapi :: world where
  "converting_fetchapi =
     page (FetchApi_new (Base ''https://api.example.com'') None
             (Some \<lparr>opt_headers = None, opt_options = None, opt_convertToFormData = Some True\<rparr>))
       Map.empty"

definition report :: js_file where
  "report = File ''report.pdf'' ''%PDF''"

section \<open>The form-data conversion in the words of its description\<close>

text \<open>
  The description of the conversion, to compare the loop with: a value goes to the file
  fields when it is a file, a list of files or an array containing a file, and
  contributes one field per file or array element; every other value stays in the JSON
  object. \<open>json_image\<close> is a value as its JSON serialization shows it (a file as an
  empty object, a list of files as an object of empty objects); \<open>file_free\<close> says that
  a value holds no file at any depth.
\<close>

fun file_valued :: "jsval \<Rightarrow> bool" where
  "file_valued (JFile f) = True"
| "file_valued (JFileList fs) = True"
| "file_valued (JArr xs) = list_ex is_File xs"
| "file_valued _ = False"

fun file_fields :: "string \<Rightarrow> jsval \<Rightarrow> formdata" where
  "file_fields key (JFile f) = [(key, FdFile f)]"
| "file_fields key (JFileList fs) = map (\<lambda>f. (key, FdFile f)) fs"
| "file_fields key (JArr xs) =
     (if list_ex is_File xs then map (\<lambda>x. (key, fd_value_of x)) xs else [])"
| "file_fields key _ = []"

fun json_image :: "jsval \<Rightarrow> jsval" where
  "json_image (JFile f) = JObj []"
| "json_image (JFileList fs) = JObj (map (\<lambda>i. (digits i, JObj [])) [0..<length fs])"
| "json_image (JArr xs) = JArr (map json_image xs)"
| "json_image (JObj kvs) = JObj (map (\<lambda>(k, v). (k, json_image v)) kvs)"
| "json_image v = v"

fun file_free :: "jsval \<Rightarrow> bool" where
  "file_free (JFile f) = False"
| "file_free (JFileList fs) = False"
| "file_free (JArr xs) = list_all file_free xs"
| "file_free (JObj kvs) = list_all (\<lambda>(k, v). file_free v) kvs"
| "file_free v = True"

section \<open>The query adapter and the authorization state\<close>

text \<open>
  \<open>baseQuery\<close> wraps the outcome of \<open>fetch\<close> as data or as error.
\<close>

datatype query_result = Data jsval | Error thrown

definition Fwr_baseQuery :: "transport \<Rightarrow> world \<Rightarrow> fetch_args \<Rightarrow> query_result \<times> world" where
  "Fwr_baseQuery net w args =
     (case Fwr_fetch net w args of
        (Inr result, w') \<Rightarrow> (Data result, w')
      | (Inl e, w') \<Rightarrow> (Error e, w'))"

text \<open>
  The two places that hold the access token, and their agreement: the header is the
  header value of \<^verbatim>\<open>Bearer\<close> followed by the persisted token (as \<^verbatim>\<open>Headers\<close>
  normalizes it), or both are absent.
\<close>

definition auth_state :: "world \<Rightarrow> string option \<times> string option" where
  "auth_state w = (headers w ''authorization'', localStorage w ''accessToken'')"

definition bearer :: "string \<Rightarrow> string" where
  "bearer t = normalize_value (''Bearer '' @ t)"

definition consistent :: "world \<Rightarrow> bool" where
  "consistent w =
     (headers w ''authorization'' = map_option bearer (localStorage w ''accessToken''))"

section \<open>Properties\<close>

lemma lower_names [simp]:
  "lower ''Content-Type'' = ''content-type''"
  "lower ''Authorization'' = ''authorization''"
  "lower ''Fingerprint'' = ''fingerprint''"
  by (simp_all add: lower_def lower_char_def)

text \<open>
  The constant \<^verbatim>\<open>Content-Type\<close> value is a header value as it stands, so this write
  never throws. \<open>header_eval\<close> are the definitions that evaluate a header write.
\<close>

lemma headers_set_json [simp]:
  "headers_set ''Content-Type'' ''application/json'' w =
     Some (header_put ''content-type'' ''application/json'' w)"
  by (simp add: headers_set_def normalize_value_def valid_value_def http_whitespace_def)

lemmas header_eval =
  headers_set_def header_put_def normalize_value_def valid_value_def http_whitespace_def

subsection \<open>Construction\<close>

text \<open>
  What the constructors store. \<open>Fwr\<close> stores the header collection merged with the
  caller's options, or with nothing when there are none; \<open>FetchApi\<close> (index.js) falls
  back to the default policy.
\<close>

lemma Fwr_new_options:
  "options (Fwr_new u ts bag) = [''headers'' \<mapsto> Live_headers] ++ spread (Option.bind bag opt_options)"
  by (simp add: Fwr_new_def coalesce_def)

lemma FetchApi_new_options:
  "options (FetchApi_new (Base u) ts None) = [''headers'' \<mapsto> Live_headers] ++ defaultOptions"
  "opt_options bag = None \<Longrightarrow>
     options (FetchApi_new (Base u) ts (Some bag)) = [''headers'' \<mapsto> Live_headers] ++ defaultOptions"
  "opt_options bag = Some given \<Longrightarrow>
     options (FetchApi_new (Base u) ts (Some bag)) = [''headers'' \<mapsto> Live_headers] ++ given"
  by (simp_all add: FetchApi_new_def)

text \<open>
  C4. The stored request options are the header collection merged with the default
  policy when the caller supplies no fetch options. \<open>FetchApi\<close> (index.js) does so
  (\<open>FetchApi_new_options\<close>). \<open>Fwr\<close> does not: constructed with a base URL only, it
  stores the header collection alone, and the \<^verbatim>\<open>credentials\<close> entry that the merge
  with the default policy would have is missing.
\<close>

theorem Fwr_new_never_applies_defaultOptions:
  "options (Fwr_new ''https://example.com'' None None) = [''headers'' \<mapsto> Live_headers]
   \<and> options (Fwr_new ''https://example.com'' None None) ''credentials'' = None
   \<and> ([''headers'' \<mapsto> Live_headers] ++ defaultOptions) ''credentials'' = Some (Js (JStr ''include''))"
  by (simp add: Fwr_new_def coalesce_def spread_def defaultOptions_def)

subsection \<open>The extended TypeScript variant and the conversion flag\<close>

text \<open>
  C10. In the extended TypeScript variant with the conversion flag set, a request
  without a body fails with a type error and leaves the world as it was: nothing is
  dispatched and no header is touched. Every \<open>get\<close> and every \<open>delete\<close> is such a
  request.
\<close>

theorem FetchApiTs_absent_body_type_error:
  assumes "convertToFormData w"
  shows "(body a = None \<longrightarrow> FetchApiTs_fetch net w a = (Inl TypeError, w))
       \<and> FetchApiTs_get net w u = (Inl TypeError, w)
       \<and> FetchApiTs_delete net w u = (Inl TypeError, w)"
  using assms
  by (simp add: FetchApiTs_fetch.simps FetchApiTs_get_def FetchApiTs_delete_def plain_args_def
      object_values_def Let_def)

theorem FetchApiTs_absent_body_witness:
  "convertToFormData ts_world
   \<and> FetchApiTs_get silent ts_world ''/items'' = (Inl TypeError, ts_world)
   \<and> sent ts_world = []"
  using FetchApiTs_absent_body_type_error
          [of ts_world "plain_args ''/items'' None None" silent "''/items''"]
  by (simp add: ts_world_def page_def FetchApiTs_new_def)

text \<open>
  C7. A pre-built form is sent untouched and without a \<^verbatim>\<open>Content-Type\<close> header,
  whatever the conversion flag. The extended TypeScript variant with the flag set does
  otherwise: posting a pre-built form, it sends the form with the header collection
  holding \<^verbatim>\<open>Content-Type: application/json\<close>.
\<close>

theorem FetchApiTs_form_body_gets_json_content_type:
  "map (\<lambda>r. (req_headers r ''content-type'', req_init r ''body''))
     (sent (snd (FetchApiTs_post ok_null ts_world ''/upload'' (Some (FormData upload_form)))))
   = [(Some ''application/json'', Some (Form upload_form))]"
  by (simp add: FetchApiTs_post_def plain_args_def FetchApiTs_fetch.simps ts_world_def page_def
      FetchApiTs_new_def object_values_def Let_def coalesce_def dispatch_def header_put_def
      ok_null_def wire_body_def response_json_def)

subsection \<open>Fwr: one request, at most one refresh, at most one retry\<close>

lemma Fwr_prepared_simps [simp]:
  "baseUrl (Fwr_prepared w a) = baseUrl w"
  "options (Fwr_prepared w a) = options w"
  "tokenSource (Fwr_prepared w a) = tokenSource w"
  "sent (Fwr_prepared w a) = sent w"
  "localStorage (Fwr_prepared w a) = localStorage w"
  "convertToFormData (Fwr_prepared w a) = convertToFormData w"
  by (simp_all add: Fwr_prepared_def header_put_def headers_delete_def)

lemma Fwr_dispatched_simps [simp]:
  "baseUrl (Fwr_dispatched w a) = baseUrl w"
  "options (Fwr_dispatched w a) = options w"
  "tokenSource (Fwr_dispatched w a) = tokenSource w"
  "sent (Fwr_dispatched w a) = sent w @ [Fwr_request w a]"
  "localStorage (Fwr_dispatched w a) = localStorage w"
  "headers (Fwr_dispatched w a) = headers (Fwr_prepared w a)"
  by (simp_all add: Fwr_dispatched_def)

lemma Fwr_encoding:
  "(if is_FormData (body a) then Some (headers_delete ''Content-Type'' w)
    else headers_set ''Content-Type'' ''application/json'' w) = Some (Fwr_prepared w a)"
  by (simp add: Fwr_prepared_def)

lemma Fwr_fetch_unfold:
  "Fwr_fetch net w a =
     (case net (sent w) (Fwr_request w a) of
        None \<Rightarrow> (Inl NetworkFailure, Fwr_dispatched w a)
      | Some res \<Rightarrow>
          if status res = 201 \<or> status res = 200 then (response_json res, Fwr_dispatched w a)
          else if status res = 401 \<and> coalesce (refresh a) True \<and> truthy_source (tokenSource w)
            then Fwr_refreshToken net (Fwr_dispatched w a) (url a) (coalesce (meth a) GET) (body a)
          else (Fwr_error res, Fwr_dispatched w a))"
  apply (subst Fwr_fetch.simps)
  unfolding Let_def Fwr_encoding option.case dispatch_def prod.case
  apply (simp add: Fwr_request_def Fwr_dispatched_def split del: if_split cong: if_cong option.case_cong)
  done

lemma Fwr_fetch_once:
  assumes "refresh a = Some False"
  shows "Fwr_fetch net w a =
     (case net (sent w) (Fwr_request w a) of
        None \<Rightarrow> (Inl NetworkFailure, Fwr_dispatched w a)
      | Some res \<Rightarrow>
          if status res = 201 \<or> status res = 200 then (response_json res, Fwr_dispatched w a)
          else (Fwr_error res, Fwr_dispatched w a))"
  using assms by (simp add: Fwr_fetch_unfold coalesce_def split: option.splits)

lemma Fwr_fetch_once_world:
  "refresh a = Some False \<Longrightarrow> snd (Fwr_fetch net w a) = Fwr_dispatched w a"
  by (simp add: Fwr_fetch_once split: option.splits)

lemma Fwr_refreshToken_acquire:
  assumes "truthy_source (tokenSource w)"
  shows "Fwr_refreshToken net w u m b =
     (case Fwr_acquire net w of
        (None, w1) \<Rightarrow> (Inl failed_to_get_token, w1)
      | (Some token, w1) \<Rightarrow>
          (case store_token token w1 of
             None \<Rightarrow> (Inl TypeError, w1)
           | Some w2 \<Rightarrow> Fwr_fetch net w2 (retry_args u m b)))"
  using assms
  by (auto simp: Fwr_refreshToken.simps Fwr_acquire_def
      split: option.splits token_source.splits prod.splits sum.splits source_result.splits)

lemma token_args_simps [simp]:
  "refresh (token_args p) = Some False" "url (token_args p) = p" "meth (token_args p) = Some GET"
  "body (token_args p) = None" "rest (token_args p) = Map.empty"
  by (simp_all add: token_args_def)

lemma retry_args_simps [simp]:
  "refresh (retry_args u m b) = Some False" "url (retry_args u m b) = u"
  "meth (retry_args u m b) = Some m" "body (retry_args u m b) = b"
  "rest (retry_args u m b) = Map.empty"
  by (simp_all add: retry_args_def)

lemma store_token_sent: "store_token t w = Some w' \<Longrightarrow> sent w' = sent w"
  by (auto simp: store_token_def headers_set_def header_put_def setItem_def
      split: option.splits if_splits)

lemma store_token_frame:
  assumes "store_token t w = Some w'"
  shows "baseUrl w' = baseUrl w" and "options w' = options w"
    and "tokenSource w' = tokenSource w" and "convertToFormData w' = convertToFormData w"
    and "headers w' ''content-type'' = headers w ''content-type''"
  using assms
  by (auto simp: store_token_def headers_set_def header_put_def setItem_def
      split: option.splits if_splits)

lemma Fwr_acquire_sent:
  "\<exists>tl. length tl \<le> 1 \<and> sent (snd (Fwr_acquire net w)) = sent w @ tl"
proof (cases "tokenSource w")
  case None
  then show ?thesis by (simp add: Fwr_acquire_def)
next
  case (Some src)
  show ?thesis
  proof (cases src)
    case (Path p)
    have "snd (Fwr_acquire net w) = Fwr_dispatched w (token_args p)"
      using Some Path Fwr_fetch_once_world [of "token_args p" net w]
      by (auto simp: Fwr_acquire_def split: prod.splits sum.splits)
    then have "sent (snd (Fwr_acquire net w)) = sent w @ [Fwr_request w (token_args p)]"
      by simp
    then show ?thesis by (intro exI [of _ "[Fwr_request w (token_args p)]"]) simp
  next
    case (Callable f)
    with Some show ?thesis
      by (simp add: Fwr_acquire_def split: source_result.splits)
  qed
qed

lemma Fwr_retry_args_simps [simp]:
  "refresh (Fwr_retry_args a) = Some False"
  by (simp add: Fwr_retry_args_def)


text \<open>The definitions that evaluate a call of the example client.\<close>

lemmas world_eval =
  fwr_world_def page_def Fwr_new_def coalesce_def spread_def new_Headers_def
  Fwr_request_def Fwr_dispatched_def Fwr_prepared_def is_FormData_def
  header_eval headers_delete_def setItem_def removeItem_def store_token_def template_def
  plain_args_def token_args_def retry_args_def Fwr_retry_args_def
  response_json_def Fwr_error_def



text \<open>
  Nor is the request re-issued when the token obtained is no header value: a token
  holding a line feed makes \<^verbatim>\<open>Headers.set\<close> throw (fwr.ts 103, outside the
  \<^verbatim>\<open>try\<close> block), the call fails with that type error after the original request
  and the token request, and neither the header nor the store is written.
\<close>

lemma Fwr_line_feed_token_is_not_retried:
  "fst (Fwr_get line_feed_after_401 fwr_world ''/items'') = Inl TypeError
   \<and> map req_url (sent (snd (Fwr_get line_feed_after_401 fwr_world ''/items'')))
       = [''https://api.example.com/items'', ''https://api.example.com/refresh'']
   \<and> headers (snd (Fwr_get line_feed_after_401 fwr_world ''/items'')) ''authorization'' = None
   \<and> localStorage (snd (Fwr_get line_feed_after_401 fwr_world ''/items'')) ''accessToken'' = None"
  by (simp add: Fwr_get_def Fwr_refreshToken.simps Fwr_fetch_unfold line_feed_after_401_def
      token_line_feed_def unauthorized_def world_eval)

subsection \<open>Fwr: JSON bodies\<close>

lemma Fwr_acquire_world:
  "snd (Fwr_acquire net w) = w \<or>
   (\<exists>p. tokenSource w = Some (Path p) \<and> snd (Fwr_acquire net w) = Fwr_dispatched w (token_args p))"
proof (cases "tokenSource w")
  case None
  then show ?thesis by (simp add: Fwr_acquire_def)
next
  case (Some src)
  show ?thesis
  proof (cases src)
    case (Path p)
    have "snd (Fwr_acquire net w) = Fwr_dispatched w (token_args p)"
      using Some Path Fwr_fetch_once_world [of "token_args p" net w]
      by (auto simp: Fwr_acquire_def split: prod.splits sum.splits)
    with Some Path show ?thesis by simp
  next
    case (Callable f)
    with Some show ?thesis
      by (simp add: Fwr_acquire_def split: source_result.splits)
  qed
qed

lemma Fwr_refreshToken_world:
  "snd (Fwr_refreshToken net w u m b) = removeItem ''accessToken'' w \<and> \<not> truthy_source (tokenSource w)
   \<or> truthy_source (tokenSource w) \<and>
      (snd (Fwr_refreshToken net w u m b) = snd (Fwr_acquire net w)
       \<or> (\<exists>t w3. store_token t (snd (Fwr_acquire net w)) = Some w3 \<and>
              snd (Fwr_refreshToken net w u m b) = Fwr_dispatched w3 (retry_args u m b)))"
proof (cases "truthy_source (tokenSource w)")
  case False
  then show ?thesis by (simp add: Fwr_refreshToken.simps)
next
  case True
  show ?thesis
  proof (cases "Fwr_acquire net w")
    case (Pair tok w1)
    then show ?thesis
      using True
      by (cases tok)
        (auto simp: Fwr_refreshToken_acquire Fwr_fetch_once_world split: option.splits)
  qed
qed

lemma Fwr_refreshToken_sent:
  "\<exists>rs. sent (snd (Fwr_refreshToken net w u m b)) = sent w @ rs"
proof -
  obtain tl where tl: "sent (snd (Fwr_acquire net w)) = sent w @ tl"
    using Fwr_acquire_sent [of net w] by blast
  from Fwr_refreshToken_world [of net w u m b] show ?thesis
  proof (elim disjE conjE exE)
    assume "snd (Fwr_refreshToken net w u m b) = removeItem ''accessToken'' w"
    then show ?thesis by (simp add: removeItem_def)
  next
    assume "snd (Fwr_refreshToken net w u m b) = snd (Fwr_acquire net w)"
    with tl show ?thesis by simp
  next
    fix t w3
    assume "store_token t (snd (Fwr_acquire net w)) = Some w3"
      and "snd (Fwr_refreshToken net w u m b) = Fwr_dispatched w3 (retry_args u m b)"
    with tl show ?thesis by (simp add: store_token_sent)
  qed
qed

lemma Fwr_fetch_world:
  "snd (Fwr_fetch net w a) = Fwr_dispatched w a \<or>
   snd (Fwr_fetch net w a) =
     snd (Fwr_refreshToken net (Fwr_dispatched w a) (url a) (coalesce (meth a) GET) (body a))"
  by (simp add: Fwr_fetch_unfold split: option.splits)

lemma Fwr_fetch_first_request:
  "\<exists>rs. sent (snd (Fwr_fetch net w a)) = sent w @ Fwr_request w a # rs"
proof -
  obtain rs where "sent (snd (Fwr_refreshToken net (Fwr_dispatched w a) (url a) (coalesce (meth a) GET) (body a)))
        = sent (Fwr_dispatched w a) @ rs"
    using Fwr_refreshToken_sent by blast
  with Fwr_fetch_world [of net w a] show ?thesis by auto
qed

lemma Fwr_prepared_content_type:
  "\<not> is_FormData (body a) \<Longrightarrow> headers (Fwr_prepared w a) ''content-type'' = Some ''application/json''"
  by (simp add: Fwr_prepared_def header_put_def)

lemma Fwr_refreshToken_content_type:
  assumes "\<not> is_FormData b" and "headers w ''content-type'' = Some ''application/json''"
  shows "headers (snd (Fwr_refreshToken net w u m b)) ''content-type'' = Some ''application/json''"
proof -
  have tok: "headers (snd (Fwr_acquire net w)) ''content-type'' = Some ''application/json''"
    using Fwr_acquire_world [of net w] assms(2)
    by (auto simp: Fwr_prepared_content_type is_FormData_def)
  from Fwr_refreshToken_world [of net w u m b] show ?thesis
  proof (elim disjE conjE exE)
    assume "snd (Fwr_refreshToken net w u m b) = removeItem ''accessToken'' w"
    with assms(2) show ?thesis by (simp add: removeItem_def)
  next
    assume "snd (Fwr_refreshToken net w u m b) = snd (Fwr_acquire net w)"
    with tok show ?thesis by simp
  next
    fix t w3
    assume "snd (Fwr_refreshToken net w u m b) = Fwr_dispatched w3 (retry_args u m b)"
    with assms(1) show ?thesis by (simp add: Fwr_prepared_content_type)
  qed
qed

text \<open>
  C6 (as amended). For a body that is no pre-built form, \<open>Fwr.fetch\<close> sets
  \<^verbatim>\<open>Content-Type: application/json\<close>: the request it dispatches first carries the
  header, and the header collection holds it when the call returns. For POST and PATCH
  the method and the body of that request are the call's: the body is the JSON
  serialization of the body argument, or of the empty object when the argument is absent
  (or \<^verbatim>\<open>null\<close>). For GET and DELETE the request path adds no body of its own: the
  \<^verbatim>\<open>body\<close> entry of the request is the one of the caller's stored options and
  per-call options, absent when they have none, and the method is theirs as well when
  they name one.
\<close>

theorem Fwr_json_request:
  assumes "\<not> is_FormData (body a)"
  shows "(\<exists>rs. sent (snd (Fwr_fetch net w a)) = sent w @ Fwr_request w a # rs)
       \<and> req_headers (Fwr_request w a) ''content-type'' = Some ''application/json''
       \<and> headers (snd (Fwr_fetch net w a)) ''content-type'' = Some ''application/json''
       \<and> (coalesce (meth a) GET = POST \<or> coalesce (meth a) GET = PATCH \<longrightarrow>
            req_init (Fwr_request w a) ''body'' =
              Some (Js (JStr (JSON_stringify
                (case body a of
                   None \<Rightarrow> JObj []
                 | Some (Value v) \<Rightarrow> if v = JNull then JObj [] else v
                 | Some (FormData fd) \<Rightarrow> JObj []))))
          \<and> req_init (Fwr_request w a) ''method'' =
              Some (Js (JStr (method_name (coalesce (meth a) GET)))))
       \<and> (coalesce (meth a) GET = GET \<or> coalesce (meth a) GET = DELETE \<longrightarrow>
            req_init (Fwr_request w a) ''body'' = (options w ++ rest a) ''body''
          \<and> req_init (Fwr_request w a) ''method'' =
              (case (options w ++ rest a) ''method'' of
                 None \<Rightarrow> Some (Js (JStr (method_name (coalesce (meth a) GET))))
               | Some given \<Rightarrow> Some given)
          \<and> (options w ''body'' = None \<and> rest a ''body'' = None \<longrightarrow>
               req_init (Fwr_request w a) ''body'' = None))"
proof -
  have log: "\<exists>rs. sent (snd (Fwr_fetch net w a)) = sent w @ Fwr_request w a # rs"
    by (rule Fwr_fetch_first_request)
  have hdr: "req_headers (Fwr_request w a) ''content-type'' = Some ''application/json''"
    using assms by (simp add: Fwr_request_def Fwr_prepared_content_type)
  have fin: "headers (snd (Fwr_fetch net w a)) ''content-type'' = Some ''application/json''"
    using Fwr_fetch_world [of net w a] assms
    by (auto simp: Fwr_prepared_content_type Fwr_refreshToken_content_type)
  have wire: "coalesce (meth a) GET = POST \<or> coalesce (meth a) GET = PATCH \<longrightarrow>
            req_init (Fwr_request w a) ''body'' =
              Some (Js (JStr (JSON_stringify
                (case body a of
                   None \<Rightarrow> JObj []
                 | Some (Value v) \<Rightarrow> if v = JNull then JObj [] else v
                 | Some (FormData fd) \<Rightarrow> JObj []))))
          \<and> req_init (Fwr_request w a) ''method'' =
              Some (Js (JStr (method_name (coalesce (meth a) GET))))"
    using assms
    by (auto simp: Fwr_request_def wire_body_def is_FormData_def split: option.splits body.splits)
  have none: "coalesce (meth a) GET = GET \<or> coalesce (meth a) GET = DELETE \<longrightarrow>
            req_init (Fwr_request w a) ''body'' = (options w ++ rest a) ''body''
          \<and> req_init (Fwr_request w a) ''method'' =
              (case (options w ++ rest a) ''method'' of
                 None \<Rightarrow> Some (Js (JStr (method_name (coalesce (meth a) GET))))
               | Some given \<Rightarrow> Some given)
          \<and> (options w ''body'' = None \<and> rest a ''body'' = None \<longrightarrow>
               req_init (Fwr_request w a) ''body'' = None)"
    by (auto simp: Fwr_request_def map_add_def split: option.splits)
  from log hdr fin wire none show ?thesis by blast
qed

text \<open>The definitions that evaluate a JSON serialization.\<close>

lemmas json_eval =
  quote_def escape_char_def int_string_def digits.simps digit_char_def

theorem Fwr_json_request_witness:
  \<open>\<not> is_FormData (body (plain_args ''/items'' (Some POST) (Some (Value (JObj [(''a'', JNum 1)])))))
   \<and> req_init (Fwr_request fwr_world (plain_args ''/items'' (Some POST) (Some (Value (JObj [(''a'', JNum 1)])))))
        ''body'' = Some (Js (JStr ''{"a":1}''))
   \<and> req_init (Fwr_request fwr_world (plain_args ''/items'' (Some PATCH) None)) ''body''
        = Some (Js (JStr ''{}''))
   \<and> req_init (Fwr_request fwr_world (plain_args ''/items'' None None)) ''body'' = None
   \<and> req_headers (Fwr_request fwr_world (plain_args ''/items'' None None)) ''content-type''
        = Some ''application/json''\<close>
  using Fwr_json_request [of "plain_args ''/items'' (Some POST) (Some (Value (JObj [(''a'', JNum 1)])))"
          silent fwr_world]
        Fwr_json_request [of "plain_args ''/items'' (Some PATCH) None" silent fwr_world]
        Fwr_json_request [of "plain_args ''/items'' None None" silent fwr_world]
  by (simp add: plain_args_def is_FormData_def coalesce_def json_eval
      fwr_world_def page_def Fwr_new_def spread_def)

text \<open>
  The claim as first stated has no body attached to any GET or DELETE. A client
  constructed with the request options \<^verbatim>\<open>{method: 'PUT', body: 'stored'}\<close>
  dispatches its \<^verbatim>\<open>get('/items')\<close> as a PUT that carries the stored body: the stored
  options are spread over the method of the call.
\<close>

theorem stored_body_is_sent_with_get:
  "\<not> is_FormData (body (plain_args ''/items'' None None))
   \<and> coalesce (meth (plain_args ''/items'' None None)) GET = GET
   \<and> map (\<lambda>r. (req_url r, req_init r ''method'', req_init r ''body''))
        (sent (snd (Fwr_get ok_null stored_body_fwr ''/items'')))
      = [(''https://api.example.com/items'', Some (Js (JStr ''PUT'')), Some (Js (JStr ''stored'')))]"
  by (simp add: Fwr_get_def plain_args_def is_FormData_def coalesce_def Fwr_fetch_unfold
      ok_null_def stored_body_fwr_def page_def Fwr_new_def spread_def Fwr_request_def
      Fwr_dispatched_def Fwr_prepared_def header_put_def)

subsection \<open>FetchApi: the request path\<close>

lemma FetchApi_prepared_simps [simp]:
  "baseUrl (FetchApi_prepared w a) = baseUrl w"
  "options (FetchApi_prepared w a) = options w"
  "tokenSource (FetchApi_prepared w a) = tokenSource w"
  "sent (FetchApi_prepared w a) = sent w"
  "localStorage (FetchApi_prepared w a) = localStorage w"
  "convertToFormData (FetchApi_prepared w a) = convertToFormData w"
  by (simp_all add: FetchApi_prepared_def header_put_def headers_delete_def)

lemma FetchApi_dispatched_simps [simp]:
  "baseUrl (FetchApi_dispatched w a) = baseUrl w"
  "options (FetchApi_dispatched w a) = options w"
  "tokenSource (FetchApi_dispatched w a) = tokenSource w"
  "sent (FetchApi_dispatched w a) = sent w @ [FetchApi_request w a]"
  "localStorage (FetchApi_dispatched w a) = localStorage w"
  "headers (FetchApi_dispatched w a) = headers (FetchApi_prepared w a)"
  "convertToFormData (FetchApi_dispatched w a) = convertToFormData w"
  by (simp_all add: FetchApi_dispatched_def)

lemma FetchApi_encoding:
  "(if is_FormData (body a) then Some (body a, headers_delete ''Content-Type'' w)
    else if body_truthy (body a) \<and> convertToFormData w then
      (if (case object_values (body a) of
             None \<Rightarrow> False
           | Some vals \<Rightarrow> list_ex (\<lambda>el. is_File el \<or> is_FileList el) vals)
       then Some (Some (FormData (toFormData (for_in (body a)))), headers_delete ''Content-Type'' w)
       else map_option (Pair (body a)) (headers_set ''Content-Type'' ''application/json'' w))
    else map_option (Pair (body a)) (headers_set ''Content-Type'' ''application/json'' w))
   = Some (FetchApi_body w a, FetchApi_prepared w a)"
  by (auto simp: FetchApi_body_def FetchApi_prepared_def FetchApi_converts_def)

lemma FetchApi_fetch_unfold:
  "FetchApi_fetch net w a =
     (case net (sent w) (FetchApi_request w a) of
        None \<Rightarrow> (Inl NetworkFailure, FetchApi_dispatched w a)
      | Some res \<Rightarrow>
          if status res = 201 \<or> status res = 200 then (response_json res, FetchApi_dispatched w a)
          else if status res = 401 \<and> coalesce (refresh a) True
            then FetchApi_refreshToken net (FetchApi_dispatched w a) res (url a)
                   (coalesce (meth a) GET) (FetchApi_body w a)
          else (FetchApi_error res, FetchApi_dispatched w a))"
  apply (subst FetchApi_fetch.simps)
  unfolding Let_def FetchApi_encoding option.case dispatch_def prod.case
  apply (simp add: FetchApi_request_def FetchApi_dispatched_def split del: if_split cong: if_cong option.case_cong)
  done

lemma FetchApi_fetch_once:
  assumes "refresh a = Some False"
  shows "FetchApi_fetch net w a =
     (case net (sent w) (FetchApi_request w a) of
        None \<Rightarrow> (Inl NetworkFailure, FetchApi_dispatched w a)
      | Some res \<Rightarrow>
          if status res = 201 \<or> status res = 200 then (response_json res, FetchApi_dispatched w a)
          else (FetchApi_error res, FetchApi_dispatched w a))"
  using assms by (simp add: FetchApi_fetch_unfold coalesce_def split: option.splits)

lemma FetchApi_fetch_once_world:
  "refresh a = Some False \<Longrightarrow> snd (FetchApi_fetch net w a) = FetchApi_dispatched w a"
  by (simp add: FetchApi_fetch_once split: option.splits)

lemma FetchApi_refreshToken_acquire:
  assumes "truthy_source (tokenSource w)"
  shows "FetchApi_refreshToken net w res u m b =
     (case FetchApi_acquire net w of
        (None, w1) \<Rightarrow> (FetchApi_error res, w1)
      | (Some token, w1) \<Rightarrow>
          (case store_token token w1 of
             None \<Rightarrow> (Inl TypeError, w1)
           | Some w2 \<Rightarrow> FetchApi_fetch net w2 (retry_args u m b)))"
  using assms
  by (auto simp: FetchApi_refreshToken.simps FetchApi_acquire_def
      split: option.splits token_source.splits prod.splits sum.splits source_result.splits)

lemma FetchApi_refreshToken_no_source:
  "\<not> truthy_source (tokenSource w) \<Longrightarrow>
     FetchApi_refreshToken net w res u m b = (FetchApi_error res, removeItem ''accessToken'' w)"
  by (simp add: FetchApi_refreshToken.simps)

lemma fetchapi_world_simps [simp]:
  "sent (fetchapi_world ls) = []"
  "tokenSource (fetchapi_world ls) = Some (Path ''/refresh'')"
  "convertToFormData (fetchapi_world ls) = False"
  "baseUrl (fetchapi_world ls) = ''https://api.example.com''"
  "localStorage (fetchapi_world ls) = ls"
  "headers (fetchapi_world ls) = Map.empty"
  by (simp_all add: fetchapi_world_def page_def FetchApi_new_def new_Headers_def)

text \<open>The definitions that evaluate a call of the example clients.\<close>

lemmas fetchapi_eval =
  fetchapi_world_def page_def FetchApi_new_def coalesce_def new_Headers_def defaultOptions_def
  FetchApi_request_def FetchApi_dispatched_def FetchApi_prepared_def FetchApi_body_def
  FetchApi_converts_def is_FormData_def body_truthy_def
  header_eval headers_delete_def setItem_def removeItem_def store_token_def template_def
  plain_args_def token_args_def retry_args_def response_json_def FetchApi_error_def

text \<open>
  C2. The refresh scenario. A \<open>FetchApi\<close> client for \<^verbatim>\<open>https://api.example.com\<close>
  with the token source \<^verbatim>\<open>/refresh\<close> calls \<^verbatim>\<open>get('/items')\<close>; the transport
  answers 401, then \<^verbatim>\<open>{accessToken: "abc"}\<close> to the GET of
  \<^verbatim>\<open>https://api.example.com/refresh\<close>, then 200 with \<^verbatim>\<open>{items: []}\<close> to the
  retried GET of \<^verbatim>\<open>https://api.example.com/items\<close>. The call resolves with
  \<^verbatim>\<open>{items: []}\<close>; the header collection holds \<^verbatim>\<open>Authorization: Bearer abc\<close>,
  the store holds \<^verbatim>\<open>abc\<close>; exactly these three requests are dispatched, the third
  carrying the new header; the token is written to the header and to the store; and the
  call equals the retry, a call of \<open>fetch\<close> with the refresh flag false in the world
  where token and header are stored.
\<close>

theorem FetchApi_refresh_scenario:
  "fst (FetchApi_get scenario (fetchapi_world ls) ''/items'') = Inr items
   \<and> headers (snd (FetchApi_get scenario (fetchapi_world ls) ''/items'')) ''authorization''
       = Some ''Bearer abc''
   \<and> localStorage (snd (FetchApi_get scenario (fetchapi_world ls) ''/items'')) ''accessToken''
       = Some ''abc''
   \<and> map (\<lambda>r. (req_url r, req_init r ''method'', req_headers r ''authorization''))
         (sent (snd (FetchApi_get scenario (fetchapi_world ls) ''/items'')))
       = [(''https://api.example.com/items'', Some (Js (JStr ''GET'')), None),
          (''https://api.example.com/refresh'', Some (Js (JStr ''GET'')), None),
          (''https://api.example.com/items'', Some (Js (JStr ''GET'')), Some ''Bearer abc'')]
   \<and> store_token (Some (JObj [(''accessToken'', JStr ''abc'')]))
         (FetchApi_dispatched
            (FetchApi_dispatched (fetchapi_world ls) (plain_args ''/items'' None None))
            (token_args ''/refresh''))
       = Some (setItem ''accessToken'' ''abc''
                (header_put ''authorization'' ''Bearer abc''
                   (FetchApi_dispatched
                      (FetchApi_dispatched (fetchapi_world ls) (plain_args ''/items'' None None))
                      (token_args ''/refresh''))))
   \<and> FetchApi_get scenario (fetchapi_world ls) ''/items''
       = FetchApi_fetch scenario
           (setItem ''accessToken'' ''abc''
              (header_put ''authorization'' ''Bearer abc''
                 (FetchApi_dispatched
                    (FetchApi_dispatched (fetchapi_world ls) (plain_args ''/items'' None None))
                    (token_args ''/refresh''))))
           (retry_args ''/items'' GET None)
   \<and> refresh (retry_args ''/items'' GET None) = Some False"
proof -
  let ?w0 = "fetchapi_world ls"
  let ?a0 = "plain_args ''/items'' None None"
  let ?w1 = "FetchApi_dispatched ?w0 ?a0"
  let ?w2 = "FetchApi_dispatched ?w1 (token_args ''/refresh'')"
  let ?w3 = "setItem ''accessToken'' ''abc'' (header_put ''authorization'' ''Bearer abc'' ?w2)"
  have written: "store_token (Some (JObj [(''accessToken'', JStr ''abc'')])) ?w2 = Some ?w3"
    by (simp add: store_token_def template_def headers_set_def normalize_value_def
        valid_value_def http_whitespace_def)
  have src: "truthy_source (tokenSource ?w1)"
    by simp
  have first: "FetchApi_get scenario ?w0 ''/items''
      = FetchApi_refreshToken scenario ?w1 unauthorized ''/items'' GET None"
    by (simp add: FetchApi_get_def FetchApi_fetch_unfold scenario_def unauthorized_def
        plain_args_def coalesce_def FetchApi_body_def FetchApi_converts_def is_FormData_def
        body_truthy_def)
  have token: "FetchApi_acquire scenario ?w1 = (Some (Some (JObj [(''accessToken'', JStr ''abc'')])), ?w2)"
    by (simp add: FetchApi_acquire_def FetchApi_fetch_once scenario_def token_abc_def
        fetchapi_eval)
  have retry: "FetchApi_get scenario ?w0 ''/items''
      = FetchApi_fetch scenario ?w3 (retry_args ''/items'' GET None)"
    unfolding first by (simp add: FetchApi_refreshToken_acquire [OF src] token written)
  have final: "FetchApi_fetch scenario ?w3 (retry_args ''/items'' GET None)
      = (Inr items, FetchApi_dispatched ?w3 (retry_args ''/items'' GET None))"
    by (simp add: FetchApi_fetch_once scenario_def fetchapi_eval)
  have hdr: "headers (FetchApi_dispatched ?w3 (retry_args ''/items'' GET None)) ''authorization''
      = Some ''Bearer abc''"
    by (simp add: fetchapi_eval)
  have store: "localStorage (FetchApi_dispatched ?w3 (retry_args ''/items'' GET None)) ''accessToken''
      = Some ''abc''"
    by (simp add: fetchapi_eval)
  have log: "map (\<lambda>r. (req_url r, req_init r ''method'', req_headers r ''authorization''))
         (sent (FetchApi_dispatched ?w3 (retry_args ''/items'' GET None)))
       = [(''https://api.example.com/items'', Some (Js (JStr ''GET'')), None),
          (''https://api.example.com/refresh'', Some (Js (JStr ''GET'')), None),
          (''https://api.example.com/items'', Some (Js (JStr ''GET'')), Some ''Bearer abc'')]"
    by (simp add: fetchapi_eval)
  show ?thesis
    unfolding retry final using hdr store log written by simp
qed

lemma FetchApi_acquire_world:
  "snd (FetchApi_acquire net w) = w \<or>
   (\<exists>p. tokenSource w = Some (Path p) \<and>
        snd (FetchApi_acquire net w) = FetchApi_dispatched w (token_args p))"
proof (cases "tokenSource w")
  case None
  then show ?thesis by (simp add: FetchApi_acquire_def)
next
  case (Some src)
  show ?thesis
  proof (cases src)
    case (Path p)
    have "snd (FetchApi_acquire net w) = FetchApi_dispatched w (token_args p)"
      using Some Path FetchApi_fetch_once_world [of "token_args p" net w]
      by (auto simp: FetchApi_acquire_def split: prod.splits sum.splits)
    with Some Path show ?thesis by simp
  next
    case (Callable f)
    with Some show ?thesis
      by (simp add: FetchApi_acquire_def split: source_result.splits)
  qed
qed

lemma FetchApi_refreshToken_world:
  "snd (FetchApi_refreshToken net w res u m b) = removeItem ''accessToken'' w
   \<or> snd (FetchApi_refreshToken net w res u m b) = snd (FetchApi_acquire net w)
   \<or> (\<exists>t w3. store_token t (snd (FetchApi_acquire net w)) = Some w3 \<and>
          snd (FetchApi_refreshToken net w res u m b) = FetchApi_dispatched w3 (retry_args u m b))"
proof (cases "truthy_source (tokenSource w)")
  case False
  then show ?thesis by (simp add: FetchApi_refreshToken_no_source)
next
  case True
  show ?thesis
  proof (cases "FetchApi_acquire net w")
    case (Pair tok w1)
    then show ?thesis
      using True
      by (cases tok)
        (auto simp: FetchApi_refreshToken_acquire FetchApi_fetch_once_world split: option.splits)
  qed
qed

lemma FetchApi_refreshToken_sent:
  "\<exists>rs. sent (snd (FetchApi_refreshToken net w res u m b)) = sent w @ rs"
proof -
  obtain tl where tl: "sent (snd (FetchApi_acquire net w)) = sent w @ tl"
    using FetchApi_acquire_world [of net w] by auto
  from FetchApi_refreshToken_world [of net w res u m b] show ?thesis
  proof (elim disjE exE conjE)
    assume "snd (FetchApi_refreshToken net w res u m b) = removeItem ''accessToken'' w"
    then show ?thesis by (simp add: removeItem_def)
  next
    assume "snd (FetchApi_refreshToken net w res u m b) = snd (FetchApi_acquire net w)"
    with tl show ?thesis by simp
  next
    fix t w3
    assume "store_token t (snd (FetchApi_acquire net w)) = Some w3"
      and "snd (FetchApi_refreshToken net w res u m b) = FetchApi_dispatched w3 (retry_args u m b)"
    with tl show ?thesis by (simp add: store_token_sent)
  qed
qed

lemma FetchApi_fetch_first_request:
  "\<exists>rs. sent (snd (FetchApi_fetch net w a)) = sent w @ FetchApi_request w a # rs"
proof (cases "net (sent w) (FetchApi_request w a)")
  case None
  then show ?thesis by (simp add: FetchApi_fetch_unfold)
next
  case (Some res)
  obtain rs where "sent (snd (FetchApi_refreshToken net (FetchApi_dispatched w a) res (url a)
          (coalesce (meth a) GET) (FetchApi_body w a))) = sent (FetchApi_dispatched w a) @ rs"
    using FetchApi_refreshToken_sent by blast
  with Some show ?thesis by (auto simp: FetchApi_fetch_unfold)
qed

lemma FetchApi_error_fails: "\<exists>e. FetchApi_error res = Inl e"
  by (simp add: FetchApi_error_def split: option.splits)

lemma Fwr_error_fails: "\<exists>e. Fwr_error res = Inl e"
  by (simp add: Fwr_error_def split: option.splits)

text \<open>
  C5 (as amended). A 401 without a truthy token source ends the call in a failure after
  that one dispatch, in \<open>FetchApi\<close> (index.js) and in \<open>Fwr\<close>: the result is the error
  handler's, which always rejects. \<open>FetchApi\<close> clears the persisted token on this path
  when the refresh flag is not false; with the flag false the store is left as it was.
\<close>

theorem unauthorized_without_token_source:
  assumes "\<not> truthy_source (tokenSource w)" and "status res = 401"
  shows "(net (sent w) (FetchApi_request w a) = Some res \<longrightarrow>
            (\<exists>e. fst (FetchApi_fetch net w a) = Inl e)
          \<and> sent (snd (FetchApi_fetch net w a)) = sent w @ [FetchApi_request w a]
          \<and> (refresh a \<noteq> Some False \<longrightarrow>
               localStorage (snd (FetchApi_fetch net w a)) ''accessToken'' = None)
          \<and> (refresh a = Some False \<longrightarrow>
               localStorage (snd (FetchApi_fetch net w a)) = localStorage w))
       \<and> (net (sent w) (Fwr_request w a) = Some res \<longrightarrow>
            (\<exists>e. fst (Fwr_fetch net w a) = Inl e)
          \<and> sent (snd (Fwr_fetch net w a)) = sent w @ [Fwr_request w a])"
proof (intro conjI impI)
  assume r: "net (sent w) (FetchApi_request w a) = Some res"
  have run: "FetchApi_fetch net w a =
      (if coalesce (refresh a) True
       then (FetchApi_error res, removeItem ''accessToken'' (FetchApi_dispatched w a))
       else (FetchApi_error res, FetchApi_dispatched w a))"
    using assms r by (simp add: FetchApi_fetch_unfold FetchApi_refreshToken_no_source)
  show "\<exists>e. fst (FetchApi_fetch net w a) = Inl e"
    using FetchApi_error_fails [of res] by (auto simp: run)
  show "sent (snd (FetchApi_fetch net w a)) = sent w @ [FetchApi_request w a]"
    by (simp add: run removeItem_def)
  show "localStorage (snd (FetchApi_fetch net w a)) ''accessToken'' = None"
    if "refresh a \<noteq> Some False"
    using that by (cases "refresh a") (auto simp: run coalesce_def removeItem_def)
  show "localStorage (snd (FetchApi_fetch net w a)) = localStorage w"
    if "refresh a = Some False"
    using that by (simp add: run coalesce_def)
next
  assume r: "net (sent w) (Fwr_request w a) = Some res"
  have run: "Fwr_fetch net w a = (Fwr_error res, Fwr_dispatched w a)"
    using assms r by (simp add: Fwr_fetch_unfold)
  show "\<exists>e. fst (Fwr_fetch net w a) = Inl e"
    using Fwr_error_fails [of res] by (simp add: run)
  show "sent (snd (Fwr_fetch net w a)) = sent w @ [Fwr_request w a]"
    by (simp add: run)
qed

lemma anonymous_simps [simp]:
  "sent (anonymous_fetchapi ls) = []" "tokenSource (anonymous_fetchapi ls) = None"
  "localStorage (anonymous_fetchapi ls) = ls"
  "sent (anonymous_fwr ls) = []" "tokenSource (anonymous_fwr ls) = None"
  "localStorage (anonymous_fwr ls) = ls"
  by (simp_all add: anonymous_fetchapi_def anonymous_fwr_def page_def FetchApi_new_def Fwr_new_def)

theorem unauthorized_without_token_source_witness:
  "\<not> truthy_source (tokenSource (anonymous_fetchapi [''accessToken'' \<mapsto> ''abc'']))
   \<and> status unauthorized = 401
   \<and> always_401 (sent (anonymous_fetchapi [''accessToken'' \<mapsto> ''abc'']))
        (FetchApi_request (anonymous_fetchapi [''accessToken'' \<mapsto> ''abc'']) (plain_args ''/items'' None None))
       = Some unauthorized
   \<and> localStorage (snd (FetchApi_fetch always_401 (anonymous_fetchapi [''accessToken'' \<mapsto> ''abc''])
        (plain_args ''/items'' None None))) ''accessToken'' = None
   \<and> length (sent (snd (FetchApi_fetch always_401 (anonymous_fetchapi [''accessToken'' \<mapsto> ''abc''])
        (plain_args ''/items'' None None)))) = 1"
  using unauthorized_without_token_source
          [of "anonymous_fetchapi [''accessToken'' \<mapsto> ''abc'']" unauthorized always_401
              "plain_args ''/items'' None None"]
  by (simp add: always_401_def unauthorized_def plain_args_def)

text \<open>
  The claim as first stated has the persisted token cleared on every such 401. \<open>Fwr\<close>
  keeps it (\<open>fetch\<close> calls the refresh sequence only with a token source), and so does
  \<open>FetchApi\<close> for a call with the refresh flag false.
\<close>

theorem persisted_token_kept_on_401:
  "tokenSource (anonymous_fwr [''accessToken'' \<mapsto> ''abc'']) = None
   \<and> fst (Fwr_get always_401 (anonymous_fwr [''accessToken'' \<mapsto> ''abc'']) ''/items'')
       = Fwr_error unauthorized
   \<and> map req_url (sent (snd (Fwr_get always_401 (anonymous_fwr [''accessToken'' \<mapsto> ''abc'']) ''/items'')))
       = [''https://api.example.com/items'']
   \<and> localStorage (snd (Fwr_get always_401 (anonymous_fwr [''accessToken'' \<mapsto> ''abc'']) ''/items''))
        ''accessToken'' = Some ''abc''
   \<and> tokenSource (anonymous_fetchapi [''accessToken'' \<mapsto> ''abc'']) = None
   \<and> fst (FetchApi_fetch always_401 (anonymous_fetchapi [''accessToken'' \<mapsto> ''abc''])
        \<lparr>url = ''/items'', meth = None, body = None, refresh = Some False, rest = Map.empty\<rparr>)
       = FetchApi_error unauthorized
   \<and> localStorage (snd (FetchApi_fetch always_401 (anonymous_fetchapi [''accessToken'' \<mapsto> ''abc''])
        \<lparr>url = ''/items'', meth = None, body = None, refresh = Some False, rest = Map.empty\<rparr>))
        ''accessToken'' = Some ''abc''"
  by (simp add: Fwr_get_def plain_args_def Fwr_fetch_unfold FetchApi_fetch_unfold always_401_def
      unauthorized_def coalesce_def Fwr_request_def anonymous_fwr_def page_def Fwr_new_def)

subsection \<open>The conversion to multipart forms on the request path\<close>

lemma FetchApiTs_prepared_simps [simp]:
  "baseUrl (FetchApiTs_prepared w a) = baseUrl w"
  "options (FetchApiTs_prepared w a) = options w"
  "tokenSource (FetchApiTs_prepared w a) = tokenSource w"
  "sent (FetchApiTs_prepared w a) = sent w"
  "localStorage (FetchApiTs_prepared w a) = localStorage w"
  "convertToFormData (FetchApiTs_prepared w a) = convertToFormData w"
  by (simp_all add: FetchApiTs_prepared_def header_put_def headers_delete_def)

lemma FetchApiTs_dispatched_simps [simp]:
  "baseUrl (FetchApiTs_dispatched w a) = baseUrl w"
  "options (FetchApiTs_dispatched w a) = options w"
  "tokenSource (FetchApiTs_dispatched w a) = tokenSource w"
  "sent (FetchApiTs_dispatched w a) = sent w @ [FetchApiTs_request w a]"
  "localStorage (FetchApiTs_dispatched w a) = localStorage w"
  "headers (FetchApiTs_dispatched w a) = headers (FetchApiTs_prepared w a)"
  "convertToFormData (FetchApiTs_dispatched w a) = convertToFormData w"
  by (simp_all add: FetchApiTs_dispatched_def)

lemma FetchApiTs_encoding:
  "(if convertToFormData w then
      (case object_values (body a) of
         None \<Rightarrow> None
       | Some vals \<Rightarrow>
           if list_ex is_File vals
           then Some (Some (FormData (toFormData (for_in (body a)))),
                      headers_delete ''Content-Type'' w)
           else map_option (Pair (body a)) (headers_set ''Content-Type'' ''application/json'' w))
    else if is_FormData (body a)
      then Some (body a, headers_delete ''Content-Type'' w)
    else map_option (Pair (body a)) (headers_set ''Content-Type'' ''application/json'' w))
   = (if FetchApiTs_throws w a then None
      else Some (FetchApiTs_body w a, FetchApiTs_prepared w a))"
  by (auto simp: FetchApiTs_throws_def FetchApiTs_body_def FetchApiTs_prepared_def
      FetchApiTs_converts_def split: option.splits)

lemma FetchApiTs_fetch_unfold:
  "FetchApiTs_fetch net w a =
     (if FetchApiTs_throws w a then (Inl TypeError, w)
      else case net (sent w) (FetchApiTs_request w a) of
        None \<Rightarrow> (Inl NetworkFailure, FetchApiTs_dispatched w a)
      | Some res \<Rightarrow>
          if status res = 201 \<or> status res = 200 then (response_json res, FetchApiTs_dispatched w a)
          else if status res = 401 \<and> coalesce (refresh a) True \<and> truthy_source (tokenSource w)
            then FetchApiTs_refreshToken net (FetchApiTs_dispatched w a) (url a)
                   (coalesce (meth a) GET) (FetchApiTs_body w a)
          else (FetchApiTs_error res, FetchApiTs_dispatched w a))"
proof (cases "FetchApiTs_throws w a")
  case True
  then show ?thesis
    by (subst FetchApiTs_fetch.simps) (simp add: Let_def FetchApiTs_encoding)
next
  case False
  then show ?thesis
    apply (subst FetchApiTs_fetch.simps)
    unfolding Let_def FetchApiTs_encoding if_False option.case dispatch_def prod.case
    apply (simp add: FetchApiTs_request_def FetchApiTs_dispatched_def
        split del: if_split cong: if_cong option.case_cong)
    done
qed

lemma FetchApiTs_fetch_once_world:
  "refresh a = Some False \<Longrightarrow>
     snd (FetchApiTs_fetch net w a) = (if FetchApiTs_throws w a then w else FetchApiTs_dispatched w a)"
  by (simp add: FetchApiTs_fetch_unfold coalesce_def split: option.splits)

lemma FetchApiTs_refreshToken_acquire:
  assumes "truthy_source (tokenSource w)"
  shows "FetchApiTs_refreshToken net w u m b =
     (case FetchApiTs_acquire net w of
        (None, w1) \<Rightarrow> (Inl failed_to_get_token, w1)
      | (Some token, w1) \<Rightarrow>
          (case store_token token w1 of
             None \<Rightarrow> (Inl TypeError, w1)
           | Some w2 \<Rightarrow> FetchApiTs_fetch net w2 (retry_args u m b)))"
  using assms
  by (auto simp: FetchApiTs_refreshToken.simps FetchApiTs_acquire_def
      split: option.splits token_source.splits prod.splits sum.splits source_result.splits)

lemma FetchApiTs_acquire_sent:
  "\<exists>tl. sent (snd (FetchApiTs_acquire net w)) = sent w @ tl"
proof (cases "tokenSource w")
  case None
  then show ?thesis by (simp add: FetchApiTs_acquire_def)
next
  case (Some src)
  show ?thesis
  proof (cases src)
    case (Path p)
    have "snd (FetchApiTs_acquire net w) = snd (FetchApiTs_fetch net w (token_args p))"
      using Some Path by (auto simp: FetchApiTs_acquire_def split: prod.splits sum.splits)
    then show ?thesis
      by (simp add: FetchApiTs_fetch_once_world)
  next
    case (Callable f)
    with Some show ?thesis
      by (simp add: FetchApiTs_acquire_def split: source_result.splits)
  qed
qed

lemma FetchApiTs_refreshToken_sent:
  "\<exists>rs. sent (snd (FetchApiTs_refreshToken net w u m b)) = sent w @ rs"
proof (cases "truthy_source (tokenSource w)")
  case False
  then show ?thesis by (simp add: FetchApiTs_refreshToken.simps removeItem_def)
next
  case True
  obtain tl where tl: "sent (snd (FetchApiTs_acquire net w)) = sent w @ tl"
    using FetchApiTs_acquire_sent by blast
  show ?thesis
  proof (cases "FetchApiTs_acquire net w")
    case (Pair tok w1)
    with tl have w1: "sent w1 = sent w @ tl" by simp
    show ?thesis
    proof (cases tok)
      case None
      with Pair True w1 show ?thesis by (simp add: FetchApiTs_refreshToken_acquire)
    next
      case (Some t)
      with Pair True w1 show ?thesis
        by (auto simp: FetchApiTs_refreshToken_acquire FetchApiTs_fetch_once_world store_token_sent
            split: option.splits)
    qed
  qed
qed

lemma FetchApiTs_fetch_first_request:
  assumes "\<not> FetchApiTs_throws w a"
  shows "\<exists>rs. sent (snd (FetchApiTs_fetch net w a)) = sent w @ FetchApiTs_request w a # rs"
proof (cases "net (sent w) (FetchApiTs_request w a)")
  case None
  with assms show ?thesis by (simp add: FetchApiTs_fetch_unfold)
next
  case (Some res)
  obtain rs where "sent (snd (FetchApiTs_refreshToken net (FetchApiTs_dispatched w a) (url a)
          (coalesce (meth a) GET) (FetchApiTs_body w a))) = sent (FetchApiTs_dispatched w a) @ rs"
    using FetchApiTs_refreshToken_sent by blast
  with Some assms show ?thesis by (auto simp: FetchApiTs_fetch_unfold)
qed

text \<open>
  \<open>FetchApi.fetch\<close> (index.js) tests for a pre-built form first: the form is sent as it
  is and the header collection has no \<^verbatim>\<open>Content-Type\<close> when the request is
  dispatched, whatever the conversion flag.
\<close>

lemma FetchApi_form_body_untouched:
  assumes "body a = Some (FormData fd)"
  shows "req_headers (FetchApi_request w a) ''content-type'' = None"
    and "FetchApi_body w a = Some (FormData fd)"
    and "coalesce (meth a) GET = POST \<or> coalesce (meth a) GET = PATCH \<Longrightarrow>
           req_init (FetchApi_request w a) ''body'' = Some (Form fd)"
  using assms
  by (auto simp: FetchApi_request_def FetchApi_prepared_def FetchApi_body_def FetchApi_converts_def
      is_FormData_def headers_delete_def wire_body_def)

text \<open>
  What triggers the conversion. With the conversion flag set and a body object, a top-level
  value that is a \<^verbatim>\<open>File\<close> or, in \<open>FetchApi\<close> (index.js), a \<^verbatim>\<open>FileList\<close> makes the
  request path convert the body: the request is dispatched with no \<^verbatim>\<open>Content-Type\<close>
  in the header collection, the body sent (for POST and PATCH) and handed on is the
  multipart form of \<open>toFormData\<close>. In \<open>FetchApi\<close> a body object without such a value is
  not converted, whatever its arrays hold.
\<close>

lemma file_values_trigger_conversion:
  assumes "convertToFormData w" and "body a = Some (Value (JObj kvs))"
  shows "(list_ex (\<lambda>el. is_File el \<or> is_FileList el) (map snd kvs) \<longrightarrow>
            (\<exists>rs. sent (snd (FetchApi_fetch net w a)) = sent w @ FetchApi_request w a # rs)
          \<and> req_headers (FetchApi_request w a) ''content-type'' = None
          \<and> FetchApi_body w a = Some (FormData (toFormData kvs))
          \<and> (coalesce (meth a) GET = POST \<or> coalesce (meth a) GET = PATCH \<longrightarrow>
                req_init (FetchApi_request w a) ''body'' = Some (Form (toFormData kvs))))
       \<and> (\<not> list_ex (\<lambda>el. is_File el \<or> is_FileList el) (map snd kvs) \<longrightarrow>
            req_headers (FetchApi_request w a) ''content-type'' = Some ''application/json''
          \<and> FetchApi_body w a = body a)
       \<and> (list_ex is_File (map snd kvs) \<longrightarrow>
            (\<exists>rs. sent (snd (FetchApiTs_fetch net w a)) = sent w @ FetchApiTs_request w a # rs)
          \<and> req_headers (FetchApiTs_request w a) ''content-type'' = None
          \<and> FetchApiTs_body w a = Some (FormData (toFormData kvs))
          \<and> (coalesce (meth a) GET = POST \<or> coalesce (meth a) GET = PATCH \<longrightarrow>
                req_init (FetchApiTs_request w a) ''body'' = Some (Form (toFormData kvs))))"
proof (intro conjI impI)
  assume files: "list_ex (\<lambda>el. is_File el \<or> is_FileList el) (map snd kvs)"
  have conv: "FetchApi_converts w a"
    using assms files
    by (simp add: FetchApi_converts_def is_FormData_def body_truthy_def object_values_def)
  show "\<exists>rs. sent (snd (FetchApi_fetch net w a)) = sent w @ FetchApi_request w a # rs"
    by (rule FetchApi_fetch_first_request)
  show "req_headers (FetchApi_request w a) ''content-type'' = None"
    using conv by (simp add: FetchApi_request_def FetchApi_prepared_def headers_delete_def)
  show body: "FetchApi_body w a = Some (FormData (toFormData kvs))"
    using conv assms by (simp add: FetchApi_body_def for_in_def)
  show "req_init (FetchApi_request w a) ''body'' = Some (Form (toFormData kvs))"
    if "coalesce (meth a) GET = POST \<or> coalesce (meth a) GET = PATCH"
    using that body by (auto simp: FetchApi_request_def wire_body_def)
next
  assume nofiles: "\<not> list_ex (\<lambda>el. is_File el \<or> is_FileList el) (map snd kvs)"
  have conv: "\<not> FetchApi_converts w a"
    using assms nofiles by (simp add: FetchApi_converts_def object_values_def)
  show "req_headers (FetchApi_request w a) ''content-type'' = Some ''application/json''"
    using conv assms
    by (simp add: FetchApi_request_def FetchApi_prepared_def header_put_def is_FormData_def)
  show "FetchApi_body w a = body a"
    using conv by (simp add: FetchApi_body_def)
next
  assume files: "list_ex is_File (map snd kvs)"
  have conv: "FetchApiTs_converts w a"
    using assms files by (simp add: FetchApiTs_converts_def object_values_def)
  have nothrow: "\<not> FetchApiTs_throws w a"
    using assms by (simp add: FetchApiTs_throws_def object_values_def)
  show "\<exists>rs. sent (snd (FetchApiTs_fetch net w a)) = sent w @ FetchApiTs_request w a # rs"
    using nothrow by (rule FetchApiTs_fetch_first_request)
  show "req_headers (FetchApiTs_request w a) ''content-type'' = None"
    using conv by (simp add: FetchApiTs_request_def FetchApiTs_prepared_def headers_delete_def)
  show body: "FetchApiTs_body w a = Some (FormData (toFormData kvs))"
    using conv assms by (simp add: FetchApiTs_body_def for_in_def)
  show "req_init (FetchApiTs_request w a) ''body'' = Some (Form (toFormData kvs))"
    if "coalesce (meth a) GET = POST \<or> coalesce (meth a) GET = PATCH"
    using that body by (auto simp: FetchApiTs_request_def wire_body_def)
qed

lemma converting_fetchapi_simps [simp]:
  "sent converting_fetchapi = []" "tokenSource converting_fetchapi = None"
  "convertToFormData converting_fetchapi = True"
  "baseUrl converting_fetchapi = ''https://api.example.com''"
  "headers converting_fetchapi = Map.empty"
  by (simp_all add: converting_fetchapi_def page_def FetchApi_new_def new_Headers_def)

text \<open>The definitions that evaluate a form-data conversion.\<close>

lemmas toFormData_eval = toFormData_def fd_append_def AList.update.simps

lemma file_values_trigger_conversion_example:
  \<open>convertToFormData converting_fetchapi
   \<and> body (plain_args ''/upload'' (Some POST) (Some (Value (JObj [(''a'', JNum 1), (''file'', JFile report)]))))
       = Some (Value (JObj [(''a'', JNum 1), (''file'', JFile report)]))
   \<and> list_ex (\<lambda>el. is_File el \<or> is_FileList el) (map snd [(''a'', JNum 1), (''file'', JFile report)])
   \<and> req_headers (FetchApi_request converting_fetchapi
         (plain_args ''/upload'' (Some POST) (Some (Value (JObj [(''a'', JNum 1), (''file'', JFile report)])))))
        ''content-type'' = None
   \<and> req_init (FetchApi_request converting_fetchapi
         (plain_args ''/upload'' (Some POST) (Some (Value (JObj [(''a'', JNum 1), (''file'', JFile report)])))))
        ''body'' = Some (Form [(''serialized-json'', FdString ''{"a":1}''), (''file'', FdFile report)])\<close>
  using file_values_trigger_conversion
          [of converting_fetchapi
              "plain_args ''/upload'' (Some POST) (Some (Value (JObj [(''a'', JNum 1), (''file'', JFile report)])))"
              "[(''a'', JNum 1), (''file'', JFile report)]" silent]
  by (simp add: plain_args_def coalesce_def toFormData_eval json_eval)

text \<open>
  C8. The description lists three value shapes that trigger the conversion: a file, a list
  of files, and an array-valued key containing a file. The test on the request path is
  \<^verbatim>\<open>Object.values(data).find(el => el instanceof File || el instanceof FileList)\<close>
  in \<open>FetchApi\<close> (index.js 261) and \<^verbatim>\<open>el instanceof File\<close> alone in the TypeScript
  variant (part_001 64); neither looks into an array. With the conversion flag set,
  \<open>FetchApi\<close> posts \<^verbatim>\<open>{files: [file]}\<close> as JSON under
  \<^verbatim>\<open>Content-Type: application/json\<close>, the file serialized as an empty object and its
  content lost, although \<open>toFormData\<close> would have put that file into the form; and the
  TypeScript variant posts a body whose value is a \<^verbatim>\<open>FileList\<close> as JSON in the same way.
\<close>

theorem array_of_files_is_sent_as_json:
  \<open>convertToFormData converting_fetchapi
   \<and> list_ex is_File [JFile report]
   \<and> map (\<lambda>r. (req_headers r ''content-type'', req_init r ''body''))
        (sent (snd (FetchApi_post ok_null converting_fetchapi ''/upload''
           (Some (Value (JObj [(''files'', JArr [JFile report])]))))))
      = [(Some ''application/json'', Some (Js (JStr ''{"files":[{}]}'')))]
   \<and> toFormData [(''files'', JArr [JFile report])]
      = [(''serialized-json'', FdString ''{}''), (''files'', FdFile report)]
   \<and> convertToFormData ts_world
   \<and> map (\<lambda>r. (req_headers r ''content-type'', req_init r ''body''))
        (sent (snd (FetchApiTs_post ok_null ts_world ''/upload''
           (Some (Value (JObj [(''files'', JFileList [report])]))))))
      = [(Some ''application/json'', Some (Js (JStr ''{"files":{"0":{}}}'')))]\<close>
proof -
  have index_js:
    \<open>map (\<lambda>r. (req_headers r ''content-type'', req_init r ''body''))
        (sent (snd (FetchApi_post ok_null converting_fetchapi ''/upload''
           (Some (Value (JObj [(''files'', JArr [JFile report])]))))))
      = [(Some ''application/json'', Some (Js (JStr ''{"files":[{}]}'')))]\<close>
    by (simp add: FetchApi_post_def plain_args_def FetchApi_fetch_unfold ok_null_def
        FetchApi_request_def FetchApi_dispatched_def FetchApi_prepared_def FetchApi_body_def
        FetchApi_converts_def is_FormData_def body_truthy_def object_values_def coalesce_def
        header_put_def wire_body_def json_eval)
  have form: "toFormData [(''files'', JArr [JFile report])]
      = [(''serialized-json'', FdString ''{}''), (''files'', FdFile report)]"
    by (simp add: toFormData_eval json_eval)
  have ts: \<open>map (\<lambda>r. (req_headers r ''content-type'', req_init r ''body''))
        (sent (snd (FetchApiTs_post ok_null ts_world ''/upload''
           (Some (Value (JObj [(''files'', JFileList [report])]))))))
      = [(Some ''application/json'', Some (Js (JStr ''{"files":{"0":{}}}'')))]\<close>
    by (simp add: FetchApiTs_post_def plain_args_def FetchApiTs_fetch_unfold ok_null_def
        FetchApiTs_request_def FetchApiTs_dispatched_def FetchApiTs_prepared_def FetchApiTs_body_def
        FetchApiTs_converts_def FetchApiTs_throws_def object_values_def coalesce_def
        ts_world_def page_def FetchApiTs_new_def new_Headers_def
        header_put_def wire_body_def json_eval)
  have flag: "convertToFormData ts_world"
    by (simp add: ts_world_def page_def FetchApiTs_new_def)
  show ?thesis
    using index_js form ts flag by simp
qed

subsection \<open>The form-data conversion\<close>

lemma fold_fd_append:
  "fold (fd_append key) xs fd = fd @ map (\<lambda>x. (key, fd_value_of x)) xs"
  by (induction xs arbitrary: fd) (simp_all add: fd_append_def)

lemma update_fresh:
  "k \<notin> fst ` set al \<Longrightarrow> AList.update k v al = al @ [(k, v)]"
  by (induction al) auto

lemma toFormData_loop_shape:
  assumes "distinct (map fst data)" and "fst ` set data \<inter> fst ` set js = {}"
  shows "toFormData_loop data fdf js =
           (fdf @ concat (map (\<lambda>kv. file_fields (fst kv) (snd kv)) data),
            js @ filter (\<lambda>kv. \<not> file_valued (snd kv)) data)"
  using assms
proof (induction data arbitrary: fdf js)
  case Nil
  then show ?case by simp
next
  case (Cons kv data)
  obtain k v where kv: "kv = (k, v)" by (cases kv)
  have fresh: "k \<notin> fst ` set js" using Cons.prems kv by auto
  have d: "distinct (map fst data)" using Cons.prems by simp
  have disj: "fst ` set data \<inter> fst ` set js = {}" using Cons.prems by auto
  have disj': "fst ` set data \<inter> fst ` set (js @ [(k, v)]) = {}"
    using Cons.prems kv by auto
  show ?case
  proof (cases "file_valued v")
    case True
    then show ?thesis
      using Cons.IH [OF d disj] kv
      by (cases v) (simp_all add: fold_fd_append fd_append_def comp_def)
  next
    case False
    then show ?thesis
      using Cons.IH [OF d disj'] kv fresh
      by (cases v) (simp_all add: update_fresh)
  qed
qed

lemma JSON_stringify_json_image: "JSON_stringify (json_image v) = JSON_stringify v"
proof (induction v)
  case (JArr xs)
  then have eq: "map (JSON_stringify \<circ> json_image) xs = map JSON_stringify xs"
    by (intro map_cong) simp_all
  show ?case by (simp add: eq)
next
  case (JObj kvs)
  have "map ((\<lambda>(k, v). quote k @ '':'' @ JSON_stringify v) \<circ> (\<lambda>(k, v). (k, json_image v))) kvs
      = map (\<lambda>(k, v). quote k @ '':'' @ JSON_stringify v) kvs"
  proof (intro map_cong refl)
    fix kv assume mem: "kv \<in> set kvs"
    obtain k v where kv: "kv = (k, v)" by (cases kv)
    have "JSON_stringify (json_image v) = JSON_stringify v"
      using JObj.IH [of kv v] mem kv by simp
    then show "((\<lambda>(k, v). quote k @ '':'' @ JSON_stringify v) \<circ> (\<lambda>(k, v). (k, json_image v))) kv
        = (\<lambda>(k, v). quote k @ '':'' @ JSON_stringify v) kv"
      using kv by simp
  qed
  then show ?case by (simp del: map_eq_conv)
next
  case (JFileList fs)
  show ?case by (simp add: comp_def)
qed simp_all

lemma json_image_file_free: "file_free v \<Longrightarrow> json_image v = v"
proof (induction v)
  case (JArr xs)
  then have "map json_image xs = map id xs"
    by (intro map_cong) (auto simp: list_all_iff)
  then show ?case by (simp del: map_eq_conv)
next
  case (JObj kvs)
  have "map (\<lambda>(k, v). (k, json_image v)) kvs = map id kvs"
  proof (intro map_cong refl)
    fix kv assume "kv \<in> set kvs"
    then show "(\<lambda>(k, v). (k, json_image v)) kv = id kv"
      using JObj.IH [of kv "snd kv"] JObj.prems by (cases kv) (auto simp: list_all_iff)
  qed
  then show ?case by (simp del: map_eq_conv)
qed simp_all

lemma file_free_json_image: "file_free (json_image v)"
proof (induction v)
  case (JArr xs)
  then show ?case by (simp add: list_all_iff)
next
  case (JObj kvs)
  have "file_free (json_image (snd kv))" if "kv \<in> set kvs" for kv
    using JObj.IH [of kv "snd kv"] that by (cases kv) simp
  then show ?case by (auto simp: list_all_iff)
next
  case (JFileList fs)
  show ?case by (simp add: list_all_iff)
qed simp_all


text \<open>
  C9 (as amended). For a body object (its keys distinct), the form that \<open>toFormData\<close>
  produces starts with the field \<^verbatim>\<open>serialized-json\<close>, whose value is the JSON
  serialization of the input restricted to the keys whose value is neither a file, a
  list of files nor an array containing a file; then come, in key order, one field per
  file under the key of a file, one per file under the key of a list of files, and one per
  element under the key of an array containing a file. The serialization is that of the
  restricted object with every file nested deeper replaced by an empty object, which is
  the restricted object itself when it holds no file.
\<close>

theorem toFormData_fields:
  assumes "distinct (map fst data)"
  shows "toFormData data =
           (''serialized-json'',
            FdString (JSON_stringify (JObj (filter (\<lambda>kv. \<not> file_valued (snd kv)) data))))
           # concat (map (\<lambda>kv. file_fields (fst kv) (snd kv)) data)
       \<and> JSON_stringify (JObj (filter (\<lambda>kv. \<not> file_valued (snd kv)) data))
           = JSON_stringify (json_image (JObj (filter (\<lambda>kv. \<not> file_valued (snd kv)) data)))
       \<and> file_free (json_image (JObj (filter (\<lambda>kv. \<not> file_valued (snd kv)) data)))
       \<and> (file_free (JObj (filter (\<lambda>kv. \<not> file_valued (snd kv)) data)) \<longrightarrow>
            json_image (JObj (filter (\<lambda>kv. \<not> file_valued (snd kv)) data))
              = JObj (filter (\<lambda>kv. \<not> file_valued (snd kv)) data))"
proof -
  have "toFormData_loop data [] [] =
          (concat (map (\<lambda>kv. file_fields (fst kv) (snd kv)) data),
           filter (\<lambda>kv. \<not> file_valued (snd kv)) data)"
    using toFormData_loop_shape [OF assms, of "[]" "[]"] by simp
  then have shape: "toFormData data =
           (''serialized-json'',
            FdString (JSON_stringify (JObj (filter (\<lambda>kv. \<not> file_valued (snd kv)) data))))
           # concat (map (\<lambda>kv. file_fields (fst kv) (snd kv)) data)"
    by (simp add: toFormData_def)
  show ?thesis
    using shape JSON_stringify_json_image [of "JObj (filter (\<lambda>kv. \<not> file_valued (snd kv)) data)"]
      file_free_json_image [of "JObj (filter (\<lambda>kv. \<not> file_valued (snd kv)) data)"]
      json_image_file_free [of "JObj (filter (\<lambda>kv. \<not> file_valued (snd kv)) data)"]
    by (intro conjI impI) simp_all
qed

theorem toFormData_fields_witness:
  \<open>distinct (map fst [(''a'', JNum 1), (''file'', JFile report)])
   \<and> toFormData [(''a'', JNum 1), (''file'', JFile report)]
       = [(''serialized-json'', FdString ''{"a":1}''), (''file'', FdFile report)]
   \<and> json_image (JObj [(''a'', JNum 1)]) = JObj [(''a'', JNum 1)]\<close>
  using toFormData_fields [of "[(''a'', JNum 1), (''file'', JFile report)]"]
  by (simp add: json_eval)

text \<open>
  The claim as first stated has the field parse back to exactly the restricted input.
  For \<^verbatim>\<open>{meta: {thumb: file}, file: file}\<close> the key \<^verbatim>\<open>meta\<close> stays in the JSON
  object, and the field is the serialization of \<^verbatim>\<open>{meta: {thumb: {}}}\<close>, a different
  object.
\<close>

theorem nested_file_is_serialized_as_empty_object:
  \<open>distinct (map fst [(''meta'', JObj [(''thumb'', JFile report)]), (''file'', JFile report)])
   \<and> \<not> file_valued (JObj [(''thumb'', JFile report)])
   \<and> toFormData [(''meta'', JObj [(''thumb'', JFile report)]), (''file'', JFile report)]
       = [(''serialized-json'', FdString ''{"meta":{"thumb":{}}}''), (''file'', FdFile report)]
   \<and> JSON_stringify (JObj [(''meta'', JObj [(''thumb'', JObj [])])]) = ''{"meta":{"thumb":{}}}''
   \<and> JObj [(''meta'', JObj [(''thumb'', JObj [])])] \<noteq> JObj [(''meta'', JObj [(''thumb'', JFile report)])]\<close>
  by (simp add: toFormData_eval json_eval)

subsection \<open>Fwr: the authorization header and the persisted token\<close>

lemma auth_state_dispatched [simp]: "auth_state (Fwr_dispatched w a) = auth_state w"
  by (simp add: auth_state_def Fwr_prepared_def header_put_def headers_delete_def)

lemma store_token_auth_state:
  assumes "store_token t w = Some w'"
  shows "auth_state w' =
     (if truthy t
      then (Some (bearer (template (get_prop (the t) ''accessToken''))),
            Some (template (get_prop (the t) ''accessToken'')))
      else auth_state w)"
  using assms
  by (auto simp: auth_state_def store_token_def setItem_def headers_set_def header_put_def bearer_def
      split: option.splits if_splits)

lemma store_token_rejects:
  "store_token t w = None \<longleftrightarrow>
     truthy t \<and> \<not> valid_value (bearer (template (get_prop (the t) ''accessToken'')))"
  by (auto simp: store_token_def headers_set_def bearer_def split: option.splits if_splits)

lemma auth_state_acquire: "auth_state (snd (Fwr_acquire net w)) = auth_state w"
  using Fwr_acquire_world [of net w] by auto

lemma Fwr_fetch_auth_state:
  "auth_state (snd (Fwr_fetch net w a)) = auth_state w
   \<or> (\<exists>s. auth_state (snd (Fwr_fetch net w a)) = (Some (bearer s), Some s))"
proof (cases "net (sent w) (Fwr_request w a)")
  case None
  then show ?thesis by (simp add: Fwr_fetch_unfold)
next
  case (Some res)
  let ?w0 = "Fwr_dispatched w a"
  show ?thesis
  proof (cases "status res \<noteq> 201 \<and> status res \<noteq> 200 \<and> status res = 401
                \<and> coalesce (refresh a) True \<and> truthy_source (tokenSource w)")
    case False
    with Some show ?thesis by (auto simp: Fwr_fetch_unfold)
  next
    case True
    then have run: "Fwr_fetch net w a =
        Fwr_refreshToken net ?w0 (url a) (coalesce (meth a) GET) (body a)"
      using Some by (simp add: Fwr_fetch_unfold)
    have src: "truthy_source (tokenSource ?w0)" using True by simp
    show ?thesis
    proof (cases "Fwr_acquire net ?w0")
      case (Pair tok w1)
      then have w1: "auth_state w1 = auth_state w"
        using auth_state_acquire [of net ?w0] by simp
      show ?thesis
      proof (cases tok)
        case None
        with Pair src w1 show ?thesis
          by (simp add: run Fwr_refreshToken_acquire)
      next
        case (Some t)
        show ?thesis
        proof (cases "store_token t w1")
          case None
          with Pair Some src w1 show ?thesis
            by (simp add: run Fwr_refreshToken_acquire)
        next
          case written: (Some w3)
          have "snd (Fwr_fetch net w a) = Fwr_dispatched w3
                  (retry_args (url a) (coalesce (meth a) GET) (body a))"
            using Pair Some written src
            by (simp add: run Fwr_refreshToken_acquire Fwr_fetch_once_world)
          then show ?thesis
            using w1 store_token_auth_state [OF written] by auto
        qed
      qed
    qed
  qed
qed

lemma Fwr_baseQuery_world: "snd (Fwr_baseQuery net w a) = snd (Fwr_fetch net w a)"
  by (auto simp: Fwr_baseQuery_def split: prod.splits sum.splits)

lemma consistent_auth_state:
  "consistent w = (fst (auth_state w) = map_option bearer (snd (auth_state w)))"
  by (simp add: consistent_def auth_state_def)

lemma Fwr_fetch_consistent: "consistent w \<Longrightarrow> consistent (snd (Fwr_fetch net w a))"
  using Fwr_fetch_auth_state [of net w a] by (auto simp: consistent_auth_state)

lemma setAuthHeader_consistent: "consistent w \<Longrightarrow> consistent (snd (setAuthHeader fingerprint w))"
  by (auto simp: consistent_def setAuthHeader_def headers_set_def header_put_def bearer_def
      split: option.splits if_splits)

lemma setAuthHeader_localStorage: "localStorage (snd (setAuthHeader fingerprint w)) = localStorage w"
  by (auto simp: setAuthHeader_def headers_set_def header_put_def split: option.splits if_splits)

lemma setAuthHeader_copies:
  assumes "localStorage w ''accessToken'' = Some t" and "t \<noteq> []" and "valid_value (bearer t)"
    and "fingerprint = None \<or> fingerprint = Some [] \<or> valid_value (normalize_value (the fingerprint))"
  shows "fst (setAuthHeader fingerprint w) = Inr ()"
    and "headers (snd (setAuthHeader fingerprint w)) ''authorization'' = Some (bearer t)"
  using assms
  by (auto simp: setAuthHeader_def headers_set_def header_put_def bearer_def
      split: option.splits if_splits)

lemma setAuthHeader_keeps:
  assumes "localStorage w ''accessToken'' = None \<or> localStorage w ''accessToken'' = Some []
           \<or> fst (setAuthHeader fingerprint w) \<noteq> Inr ()"
  shows "headers (snd (setAuthHeader fingerprint w)) ''authorization'' = headers w ''authorization''"
  using assms
  by (auto simp: setAuthHeader_def headers_set_def header_put_def
      split: option.splits if_splits)

lemma deleteAuthHeader_clears:
  "headers (deleteAuthHeader w) ''authorization'' = None"
  "localStorage (deleteAuthHeader w) ''accessToken'' = None"
  by (simp_all add: deleteAuthHeader_def removeItem_def headers_delete_def)

lemma bearer_plain:
  assumes "s \<noteq> []" and "\<not> http_whitespace (last s)"
  shows "bearer s = ''Bearer '' @ s"
proof -
  have "dropWhile http_whitespace (rev s) = rev s"
    using assms by (cases s rule: rev_cases) auto
  then have "dropWhile http_whitespace (rev (''Bearer '' @ s)) = rev (''Bearer '' @ s)"
    using assms by (cases s rule: rev_cases) auto
  moreover have "dropWhile http_whitespace (''Bearer '' @ s) = ''Bearer '' @ s"
    by (simp add: http_whitespace_def)
  ultimately show ?thesis
    by (simp only: bearer_def normalize_value_def rev_rev_ident)
qed

text \<open>
  C3 (as amended). In \<open>Fwr\<close>, with \<open>bearer t\<close> the header value that \<^verbatim>\<open>Headers.set\<close>
  stores for \<^verbatim>\<open>Bearer\<close> followed by the token \<open>t\<close> (that text itself when \<open>t\<close> is not
  empty and does not end in a blank): a refresh that obtains a truthy token either
  leaves the header collection with \<open>bearer\<close> of that token and the store with the same
  token, or, when that text is no header value, fails with the type error of
  \<^verbatim>\<open>Headers.set\<close> and has written neither; \<open>deleteAuthHeader\<close> removes the header and
  the persisted token together; \<open>setAuthHeader\<close> never writes the store, copies a
  persisted token that is not empty into the header (when \<^verbatim>\<open>Headers.set\<close> accepts its
  arguments) and leaves the header as it was otherwise; and every operation (\<open>fetch\<close>,
  hence its shorthands, \<open>baseQuery\<close>, \<open>setAuthHeader\<close>, \<open>deleteAuthHeader\<close>) keeps
  header and persisted token in agreement.
\<close>

theorem Fwr_authorization_consistent:
  "(refresh a \<noteq> Some False \<and> truthy_source (tokenSource w)
      \<and> net (sent w) (Fwr_request w a) = Some res \<and> status res = 401
      \<and> Fwr_acquire net (Fwr_dispatched w a) = (Some (Some token), w1) \<and> truthy (Some token)
    \<longrightarrow> (if valid_value (bearer (template (get_prop token ''accessToken'')))
         then headers (snd (Fwr_fetch net w a)) ''authorization''
                = Some (bearer (template (get_prop token ''accessToken'')))
            \<and> localStorage (snd (Fwr_fetch net w a)) ''accessToken''
                = Some (template (get_prop token ''accessToken''))
         else Fwr_fetch net w a = (Inl TypeError, w1)
            \<and> headers w1 ''authorization'' = headers w ''authorization''
            \<and> localStorage w1 ''accessToken'' = localStorage w ''accessToken''))
   \<and> (s \<noteq> [] \<and> \<not> http_whitespace (last s) \<longrightarrow> bearer s = ''Bearer '' @ s)
   \<and> headers (deleteAuthHeader w) ''authorization'' = None
   \<and> localStorage (deleteAuthHeader w) ''accessToken'' = None
   \<and> localStorage (snd (setAuthHeader fingerprint w)) = localStorage w
   \<and> (localStorage w ''accessToken'' = Some t \<and> t \<noteq> [] \<and> valid_value (bearer t)
        \<and> (fingerprint = None \<or> fingerprint = Some []
             \<or> valid_value (normalize_value (the fingerprint)))
      \<longrightarrow> fst (setAuthHeader fingerprint w) = Inr ()
        \<and> headers (snd (setAuthHeader fingerprint w)) ''authorization'' = Some (bearer t))
   \<and> (localStorage w ''accessToken'' = None \<or> localStorage w ''accessToken'' = Some []
        \<or> fst (setAuthHeader fingerprint w) \<noteq> Inr ()
      \<longrightarrow> headers (snd (setAuthHeader fingerprint w)) ''authorization''
            = headers w ''authorization'')
   \<and> (consistent w \<longrightarrow>
         consistent (snd (Fwr_fetch net w a))
       \<and> consistent (snd (Fwr_baseQuery net w a))
       \<and> consistent (snd (setAuthHeader fingerprint w))
       \<and> consistent (deleteAuthHeader w))"
proof -
  let ?tk = "template (get_prop token ''accessToken'')"
  have refreshed: "if valid_value (bearer ?tk)
         then headers (snd (Fwr_fetch net w a)) ''authorization'' = Some (bearer ?tk)
            \<and> localStorage (snd (Fwr_fetch net w a)) ''accessToken'' = Some ?tk
         else Fwr_fetch net w a = (Inl TypeError, w1)
            \<and> headers w1 ''authorization'' = headers w ''authorization''
            \<and> localStorage w1 ''accessToken'' = localStorage w ''accessToken''"
    if h: "refresh a \<noteq> Some False \<and> truthy_source (tokenSource w)
      \<and> net (sent w) (Fwr_request w a) = Some res \<and> status res = 401
      \<and> Fwr_acquire net (Fwr_dispatched w a) = (Some (Some token), w1) \<and> truthy (Some token)"
  proof -
    from h have refresh: "coalesce (refresh a) True"
      by (cases "refresh a") (auto simp: coalesce_def)
    have run: "Fwr_fetch net w a =
        Fwr_refreshToken net (Fwr_dispatched w a) (url a) (coalesce (meth a) GET) (body a)"
      using h refresh by (simp add: Fwr_fetch_unfold)
    have w1: "auth_state w1 = auth_state w"
      using h auth_state_acquire [of net "Fwr_dispatched w a"] by simp
    show ?thesis
    proof (cases "store_token (Some token) w1")
      case None
      then have invalid: "\<not> valid_value (bearer ?tk)"
        by (simp add: store_token_rejects)
      have "Fwr_fetch net w a = (Inl TypeError, w1)"
        using h None by (simp add: run Fwr_refreshToken_acquire)
      with invalid w1 show ?thesis
        by (simp add: auth_state_def)
    next
      case (Some w3)
      then have valid: "valid_value (bearer ?tk)"
        using h store_token_rejects [of "Some token" w1] by auto
      have "snd (Fwr_fetch net w a) = Fwr_dispatched w3
                  (retry_args (url a) (coalesce (meth a) GET) (body a))"
        using h Some by (simp add: run Fwr_refreshToken_acquire Fwr_fetch_once_world)
      then have "auth_state (snd (Fwr_fetch net w a)) = (Some (bearer ?tk), Some ?tk)"
        using h store_token_auth_state [OF Some] by simp
      with valid show ?thesis
        by (simp add: auth_state_def)
    qed
  qed
  have kept: "consistent (snd (Fwr_fetch net w a)) \<and> consistent (snd (Fwr_baseQuery net w a))
       \<and> consistent (snd (setAuthHeader fingerprint w)) \<and> consistent (deleteAuthHeader w)"
    if c: "consistent w"
    using c Fwr_fetch_consistent [of w net a] setAuthHeader_consistent [of w fingerprint]
    by (simp add: Fwr_baseQuery_world consistent_def deleteAuthHeader_clears)
  show ?thesis
    using refreshed kept bearer_plain [of s] deleteAuthHeader_clears [of w]
      setAuthHeader_localStorage [of fingerprint w]
      setAuthHeader_copies [of w t fingerprint] setAuthHeader_keeps [of w fingerprint]
    by (intro conjI impI) blast+
qed

theorem Fwr_authorization_consistent_witness:
  "refresh (plain_args ''/items'' None None) \<noteq> Some False
   \<and> truthy_source (tokenSource fwr_world)
   \<and> always_401_after_token (sent fwr_world) (Fwr_request fwr_world (plain_args ''/items'' None None))
       = Some unauthorized
   \<and> status unauthorized = 401
   \<and> Fwr_acquire always_401_after_token (Fwr_dispatched fwr_world (plain_args ''/items'' None None))
       = (Some (Some (JObj [(''accessToken'', JStr ''abc'')])),
          Fwr_dispatched (Fwr_dispatched fwr_world (plain_args ''/items'' None None))
            (token_args ''/refresh''))
   \<and> truthy (Some (JObj [(''accessToken'', JStr ''abc'')]))
   \<and> valid_value (bearer ''abc'')
   \<and> bearer ''abc'' = ''Bearer abc''
   \<and> headers (snd (Fwr_fetch always_401_after_token fwr_world (plain_args ''/items'' None None)))
        ''authorization'' = Some ''Bearer abc''
   \<and> localStorage (snd (Fwr_fetch always_401_after_token fwr_world (plain_args ''/items'' None None)))
        ''accessToken'' = Some ''abc''
   \<and> consistent fwr_world
   \<and> consistent (snd (Fwr_fetch always_401_after_token fwr_world (plain_args ''/items'' None None)))
   \<and> line_feed_after_401 (sent fwr_world) (Fwr_request fwr_world (plain_args ''/items'' None None))
       = Some unauthorized
   \<and> Fwr_acquire line_feed_after_401 (Fwr_dispatched fwr_world (plain_args ''/items'' None None))
       = (Some (Some (JObj [(''accessToken'', JStr [CHR ''a'', CHR 0x0A, CHR ''b''])])),
          Fwr_dispatched (Fwr_dispatched fwr_world (plain_args ''/items'' None None))
            (token_args ''/refresh''))
   \<and> \<not> valid_value (bearer [CHR ''a'', CHR 0x0A, CHR ''b''])
   \<and> Fwr_fetch line_feed_after_401 fwr_world (plain_args ''/items'' None None)
       = (Inl TypeError,
          Fwr_dispatched (Fwr_dispatched fwr_world (plain_args ''/items'' None None))
            (token_args ''/refresh''))
   \<and> headers (snd (Fwr_fetch line_feed_after_401 fwr_world (plain_args ''/items'' None None)))
        ''authorization'' = None
   \<and> localStorage (snd (Fwr_fetch line_feed_after_401 fwr_world (plain_args ''/items'' None None)))
        ''accessToken'' = None
   \<and> localStorage (anonymous_fwr [''accessToken'' \<mapsto> ''abc'']) ''accessToken'' = Some ''abc''
   \<and> fst (setAuthHeader None (anonymous_fwr [''accessToken'' \<mapsto> ''abc''])) = Inr ()
   \<and> headers (snd (setAuthHeader None (anonymous_fwr [''accessToken'' \<mapsto> ''abc''])))
        ''authorization'' = Some ''Bearer abc''"
proof -
  let ?a = "plain_args ''/items'' None None"
  let ?w1 = "Fwr_dispatched (Fwr_dispatched fwr_world ?a) (token_args ''/refresh'')"
  let ?lf = "[CHR ''a'', CHR 0x0A, CHR ''b'']"
  let ?stored = "anonymous_fwr [''accessToken'' \<mapsto> ''abc'']"
  have h1: "refresh ?a \<noteq> Some False"
    by (simp add: plain_args_def)
  have h2: "truthy_source (tokenSource fwr_world)"
    by (simp add: fwr_world_def page_def Fwr_new_def)
  have h3: "always_401_after_token (sent fwr_world) (Fwr_request fwr_world ?a) = Some unauthorized"
    by (simp add: always_401_after_token_def fwr_world_def page_def)
  have h3': "line_feed_after_401 (sent fwr_world) (Fwr_request fwr_world ?a) = Some unauthorized"
    by (simp add: line_feed_after_401_def fwr_world_def page_def)
  have h4: "status unauthorized = 401"
    by (simp add: unauthorized_def)
  have h5: "Fwr_acquire always_401_after_token (Fwr_dispatched fwr_world ?a)
       = (Some (Some (JObj [(''accessToken'', JStr ''abc'')])), ?w1)"
    by (simp add: Fwr_acquire_def Fwr_fetch_once always_401_after_token_def token_abc_def
        response_json_def fwr_world_def page_def Fwr_new_def)
  have h5': "Fwr_acquire line_feed_after_401 (Fwr_dispatched fwr_world ?a)
       = (Some (Some (JObj [(''accessToken'', JStr ?lf)])), ?w1)"
    by (simp add: Fwr_acquire_def Fwr_fetch_once line_feed_after_401_def token_line_feed_def
        response_json_def fwr_world_def page_def Fwr_new_def)
  have h6: "truthy (Some (JObj [(''accessToken'', JStr ''abc'')]))"
    and h6': "truthy (Some (JObj [(''accessToken'', JStr ?lf)]))"
    by simp_all
  have v: "valid_value (bearer ''abc'')" and v': "\<not> valid_value (bearer ?lf)"
    by (simp_all add: bearer_def normalize_value_def valid_value_def http_whitespace_def)
  have plain: "''abc'' \<noteq> [] \<and> \<not> http_whitespace (last ''abc'')"
    by (simp add: http_whitespace_def)
  have c: "consistent fwr_world"
    by (simp add: consistent_def fwr_world_def page_def Fwr_new_def new_Headers_def)
  have start: "headers fwr_world ''authorization'' = None"
    "localStorage fwr_world ''accessToken'' = None"
    by (simp_all add: fwr_world_def page_def Fwr_new_def new_Headers_def)
  have stored: "localStorage ?stored ''accessToken'' = Some ''abc''"
    by simp
  note accepted = Fwr_authorization_consistent [where a = ?a and w = fwr_world
      and net = always_401_after_token and res = unauthorized
      and token = "JObj [(''accessToken'', JStr ''abc'')]" and ?w1.0 = ?w1
      and s = "''abc''" and fingerprint = None and t = "''abc''"]
  note rejected = Fwr_authorization_consistent [where a = ?a and w = fwr_world
      and net = line_feed_after_401 and res = unauthorized
      and token = "JObj [(''accessToken'', JStr ?lf)]" and ?w1.0 = ?w1
      and s = "''abc''" and fingerprint = None and t = "''abc''"]
  note copied = Fwr_authorization_consistent [where a = ?a and w = ?stored
      and net = always_401_after_token and res = unauthorized
      and token = "JObj [(''accessToken'', JStr ''abc'')]" and ?w1.0 = ?w1
      and s = "''abc''" and fingerprint = None and t = "''abc''"]
  have plain_bearer: "bearer ''abc'' = ''Bearer abc''"
    using accepted plain by simp
  have written: "headers (snd (Fwr_fetch always_401_after_token fwr_world ?a)) ''authorization''
        = Some ''Bearer abc''"
    "localStorage (snd (Fwr_fetch always_401_after_token fwr_world ?a)) ''accessToken'' = Some ''abc''"
    "consistent (snd (Fwr_fetch always_401_after_token fwr_world ?a))"
    using accepted h1 h2 h3 h4 h5 h6 v c plain_bearer by (simp_all add: template_def)
  have thrown: "Fwr_fetch line_feed_after_401 fwr_world ?a = (Inl TypeError, ?w1)"
    "headers ?w1 ''authorization'' = None" "localStorage ?w1 ''accessToken'' = None"
    using rejected h1 h2 h3' h4 h5' h6' v' start by (simp_all add: template_def)
  have copy: "fst (setAuthHeader None ?stored) = Inr ()"
    "headers (snd (setAuthHeader None ?stored)) ''authorization'' = Some ''Bearer abc''"
    using copied stored v plain_bearer by simp_all
  show ?thesis
    using h1 h2 h3 h3' h4 h5 h5' h6 v v' c plain_bearer written thrown copy stored
    by (intro conjI) simp_all
qed

text \<open>
  The claim as first stated has no operation write one of the two without the other.
  \<open>setAuthHeader\<close> writes the header from the persisted token and leaves the store as
  it is: on a client without the header and a store holding \<^verbatim>\<open>abc\<close>, it returns with
  the header \<^verbatim>\<open>Bearer abc\<close> written and the store untouched.
\<close>

theorem setAuthHeader_writes_the_header_alone:
  "headers (anonymous_fwr [''accessToken'' \<mapsto> ''abc'']) ''authorization'' = None
   \<and> setAuthHeader None (anonymous_fwr [''accessToken'' \<mapsto> ''abc''])
       = (Inr (), header_put ''authorization'' ''Bearer abc''
                    (anonymous_fwr [''accessToken'' \<mapsto> ''abc'']))
   \<and> headers (snd (setAuthHeader None (anonymous_fwr [''accessToken'' \<mapsto> ''abc''])))
        ''authorization'' = Some ''Bearer abc''
   \<and> localStorage (snd (setAuthHeader None (anonymous_fwr [''accessToken'' \<mapsto> ''abc''])))
       = localStorage (anonymous_fwr [''accessToken'' \<mapsto> ''abc''])"
  by (simp add: setAuthHeader_def header_eval
      anonymous_fwr_def page_def Fwr_new_def new_Headers_def)

end
